theory Spec2Isabelle
  imports Complex_Main "HOL-Library.Word" "HOL-Library.Log_Nat"
begin

unbundle bit_operations_syntax

section \<open>JavaScript numbers used by the audio decoder\<close>

text \<open>
  The bitwise operators of JavaScript work on 32-bit two's complement integers:
  both operands go through ToInt32 and so does the result.  Integers are modelled
  as \<open>int\<close> with the wrap-around written out.  All other arithmetic of the source is
  on doubles; it is modelled on \<open>real\<close>, with the non-finite results of a division
  by zero made explicit in \<open>jsnum\<close>.  Rounding of doubles is not modelled.  A
  value stored into a \<open>Float32Array\<close> is rounded to single precision by
  \<open>fround\<close> below.
\<close>

definition toInt32 :: "int \<Rightarrow> int" where
  "toInt32 x = (x + 2 ^ 31) mod 2 ^ 32 - 2 ^ 31"

definition js_shl :: "int \<Rightarrow> nat \<Rightarrow> int" where
  "js_shl x n = toInt32 (toInt32 x * 2 ^ n)"

definition js_or :: "int \<Rightarrow> int \<Rightarrow> int" where
  "js_or a b = toInt32 (toInt32 a OR toInt32 b)"

datatype jsnum = Fin real | PosInf | NegInf | NaN

text \<open>\<open>a / b\<close> on doubles, for a divisor that is never a negative zero.\<close>

definition js_div :: "real \<Rightarrow> real \<Rightarrow> jsnum" where
  "js_div a b =
     (if b = 0 then (if a = 0 then NaN else if 0 < a then PosInf else NegInf)
      else Fin (a / b))"

fun js_less :: "jsnum \<Rightarrow> jsnum \<Rightarrow> bool" where
  "js_less (Fin a) (Fin b) = (a < b)"
| "js_less (Fin a) PosInf = True"
| "js_less NegInf (Fin b) = True"
| "js_less NegInf PosInf = True"
| "js_less _ _ = False"

text \<open>\<open>a >= b\<close>: false as soon as one side is NaN.\<close>

definition js_ge :: "jsnum \<Rightarrow> jsnum \<Rightarrow> bool" where
  "js_ge a b = (a \<noteq> NaN \<and> b \<noteq> NaN \<and> \<not> js_less a b)"

text \<open>\<open>Math.sqrt\<close>; the argument \<open>-0\<close> (read here as \<open>0\<close>) gives \<open>-0\<close>.\<close>

fun js_sqrt :: "jsnum \<Rightarrow> jsnum" where
  "js_sqrt (Fin y) = (if y < 0 then NaN else Fin (sqrt y))"
| "js_sqrt PosInf = PosInf"
| "js_sqrt NegInf = NaN"
| "js_sqrt NaN = NaN"

text \<open>
  The store into a \<open>Float32Array\<close>: the nearest single-precision number, ties
  to the even significand.  \<open>binaryExponent x\<close> is the integer \<open>e\<close> with
  \<open>2^e \<le> |x| < 2^(e+1)\<close>; the spacing of the single-precision numbers around
  \<open>x\<close> is \<open>2^(e-23)\<close>, and \<open>2^(-149)\<close> below the normal range.  A magnitude
  that rounds to \<open>2^128\<close> or more is stored as an infinity in the source; the
  samples stored here are far below it, and the arrays of the model hold reals.
\<close>

definition binaryExponent :: "real \<Rightarrow> int" where
  "binaryExponent x =
     (if 1 \<le> \<bar>x\<bar> then int (floorlog 2 (nat \<lfloor>\<bar>x\<bar>\<rfloor>)) - 1
      else - int (floorlog 2 (nat (\<lceil>1 / \<bar>x\<bar>\<rceil> - 1))))"

definition roundHalfEven :: "real \<Rightarrow> int" where
  "roundHalfEven y =
     (let r = \<lfloor>y\<rfloor>; d = y - real_of_int r
      in if d < 1 / 2 then r else if 1 / 2 < d then r + 1 else if even r then r else r + 1)"

definition fround :: "real \<Rightarrow> real" where
  "fround x =
     (if x = 0 then 0
      else let e = max (binaryExponent x) (- 126);
               q = power_int 2 (e - 23)
           in real_of_int (roundHalfEven (x / q)) * q)"


section \<open>ByteReader\<close>

type_synonym byte = "8 word"

record ByteReader =
  fileByte :: "byte list"
  fileSize :: int
  readOffset :: int

text \<open>
  \<open>DataView.getUint8\<close> throws a RangeError outside the buffer.  Every reader
  operation returns \<open>None\<close> for a thrown exception.
\<close>

definition getUint8 :: "ByteReader \<Rightarrow> int \<Rightarrow> int option" where
  "getUint8 r i =
     (if 0 \<le> i \<and> i < int (length (fileByte r)) then Some (uint (fileByte r ! nat i))
      else None)"

definition get8 :: "ByteReader \<Rightarrow> (int \<times> ByteReader) option" where
  "get8 r =
     (case getUint8 r (readOffset r) of
        None \<Rightarrow> None
      | Some ret \<Rightarrow> Some (ret, r\<lparr>readOffset := readOffset r + 1\<rparr>))"

definition get16LittleEndian :: "ByteReader \<Rightarrow> (int \<times> ByteReader) option" where
  "get16LittleEndian r =
     (case getUint8 r (readOffset r + 1) of
        None \<Rightarrow> None
      | Some b1 \<Rightarrow>
          (case getUint8 r (readOffset r) of
             None \<Rightarrow> None
           | Some b0 \<Rightarrow>
               Some (js_or (js_shl b1 8) b0, r\<lparr>readOffset := readOffset r + 2\<rparr>)))"

definition get24LittleEndian :: "ByteReader \<Rightarrow> (int \<times> ByteReader) option" where
  "get24LittleEndian r =
     (case getUint8 r (readOffset r + 2) of
        None \<Rightarrow> None
      | Some b2 \<Rightarrow>
          (case getUint8 r (readOffset r + 1) of
             None \<Rightarrow> None
           | Some b1 \<Rightarrow>
               (case getUint8 r (readOffset r) of
                  None \<Rightarrow> None
                | Some b0 \<Rightarrow>
                    Some (js_or (js_or (js_shl b2 16) (js_shl b1 8)) b0,
                          r\<lparr>readOffset := readOffset r + 3\<rparr>))))"

definition get32LittleEndian :: "ByteReader \<Rightarrow> (int \<times> ByteReader) option" where
  "get32LittleEndian r =
     (case getUint8 r (readOffset r + 3) of
        None \<Rightarrow> None
      | Some b3 \<Rightarrow>
          (case getUint8 r (readOffset r + 2) of
             None \<Rightarrow> None
           | Some b2 \<Rightarrow>
               (case getUint8 r (readOffset r + 1) of
                  None \<Rightarrow> None
                | Some b1 \<Rightarrow>
                    (case getUint8 r (readOffset r) of
                       None \<Rightarrow> None
                     | Some b0 \<Rightarrow>
                         Some (js_or (js_or (js_or (js_shl b3 24) (js_shl b2 16)) (js_shl b1 8)) b0,
                               r\<lparr>readOffset := readOffset r + 4\<rparr>)))))"

text \<open>The four bytes are read one by one before they are compared.\<close>

definition getCheckSignature :: "string \<Rightarrow> ByteReader \<Rightarrow> (bool \<times> ByteReader) option" where
  "getCheckSignature reference r =
     (if length reference \<noteq> 4 then Some (False, r)
      else
        (case get8 r of None \<Rightarrow> None | Some (s0, r0) \<Rightarrow>
        (case get8 r0 of None \<Rightarrow> None | Some (s1, r1) \<Rightarrow>
        (case get8 r1 of None \<Rightarrow> None | Some (s2, r2) \<Rightarrow>
        (case get8 r2 of None \<Rightarrow> None | Some (s3, r3) \<Rightarrow>
           Some (s0 = of_char (reference ! 0) \<and> s1 = of_char (reference ! 1) \<and>
                 s2 = of_char (reference ! 2) \<and> s3 = of_char (reference ! 3), r3))))))"


section \<open>LAppWavFileHandler\<close>

record WavFileInfo =
  numberOfChannels :: int
  bitsPerSample :: int
  samplingRate :: int
  samplesPerChannel :: jsnum

text \<open>
  \<open>pcmData\<close> is \<open>null\<close> (\<open>None\<close>) or an array with one entry per channel; an
  entry is \<open>undefined\<close> (\<open>None\<close>) until its \<open>Float32Array\<close> has been allocated.
  The byte reader is set up anew by every \<open>loadWavFile\<close> and read nowhere else, so
  it is local to the parse.  \<open>sampleOffset\<close> only ever holds 0 or a target offset
  that was reached, which is finite.
\<close>

record LAppWavFileHandler =
  pcmData :: "real list option list option"
  userTimeSeconds :: real
  lastRms :: jsnum
  sampleOffset :: real
  wavFileInfo :: WavFileInfo


definition getPcmSample :: "int \<Rightarrow> ByteReader \<Rightarrow> (real \<times> ByteReader) option" where
  "getPcmSample bits r =
     (if bits = 8 then
        (case get8 r of None \<Rightarrow> None
         | Some (b, r') \<Rightarrow> Some (real_of_int (js_shl (b - 128) 24) / 2147483647, r'))
      else if bits = 16 then
        (case get16LittleEndian r of None \<Rightarrow> None
         | Some (x, r') \<Rightarrow> Some (real_of_int (js_shl x 16) / 2147483647, r'))
      else if bits = 24 then
        (case get24LittleEndian r of None \<Rightarrow> None
         | Some (x, r') \<Rightarrow> Some (real_of_int (js_shl x 8) / 2147483647, r'))
      else Some (real_of_int 0 / 2147483647, r))"

definition releasePcmData :: "LAppWavFileHandler \<Rightarrow> LAppWavFileHandler" where
  "releasePcmData h = h\<lparr>pcmData := None\<rparr>"

text \<open>
  The header up to the end of the \<open>fmt\<close> chunk.  \<open>Inl h\<close>: the parse is over with
  the result \<open>false\<close> (a check failed, or a read threw and the \<open>catch\<close> ran),
  leaving the handler \<open>h\<close>.  \<open>Inr (r, h)\<close>: the header parsed.
\<close>

definition parseFmt ::
  "ByteReader \<Rightarrow> LAppWavFileHandler \<Rightarrow> LAppWavFileHandler + (ByteReader \<times> LAppWavFileHandler)" where
  "parseFmt r h =
     (if fileSize r < 4 then Inl h else
     (case getCheckSignature ''RIFF'' r of None \<Rightarrow> Inl h | Some (riff, r1) \<Rightarrow>
      if \<not> riff then Inl h else
     (case get32LittleEndian r1 of None \<Rightarrow> Inl h | Some (_, r2) \<Rightarrow>
     (case getCheckSignature ''WAVE'' r2 of None \<Rightarrow> Inl h | Some (wave, r3) \<Rightarrow>
      if \<not> wave then Inl h else
     (case getCheckSignature ''fmt '' r3 of None \<Rightarrow> Inl h | Some (fmt, r4) \<Rightarrow>
      if \<not> fmt then Inl h else
     (case get32LittleEndian r4 of None \<Rightarrow> Inl h | Some (fmtChunkSize, r5) \<Rightarrow>
     (case get16LittleEndian r5 of None \<Rightarrow> Inl h | Some (format, r6) \<Rightarrow>
      if format \<noteq> 1 then Inl h else
     (case get16LittleEndian r6 of None \<Rightarrow> Inl h | Some (channels, r7) \<Rightarrow>
      let h1 = h\<lparr>wavFileInfo := (wavFileInfo h)\<lparr>numberOfChannels := channels\<rparr>\<rparr> in
     (case get32LittleEndian r7 of None \<Rightarrow> Inl h1 | Some (rate, r8) \<Rightarrow>
      let h2 = h1\<lparr>wavFileInfo := (wavFileInfo h1)\<lparr>samplingRate := rate\<rparr>\<rparr> in
     (case get32LittleEndian r8 of None \<Rightarrow> Inl h2 | Some (_, r9) \<Rightarrow>
     (case get16LittleEndian r9 of None \<Rightarrow> Inl h2 | Some (_, r10) \<Rightarrow>
     (case get16LittleEndian r10 of None \<Rightarrow> Inl h2 | Some (bits, r11) \<Rightarrow>
      let h3 = h2\<lparr>wavFileInfo := (wavFileInfo h2)\<lparr>bitsPerSample := bits\<rparr>\<rparr> in
      Inr (if fmtChunkSize > 16
           then r11\<lparr>readOffset := readOffset r11 + (fmtChunkSize - 16)\<rparr> else r11, h3)))))))))))))"

text \<open>
  The scan for the \<open>data\<close> chunk:
  \<^verbatim>\<open>while (!getCheckSignature('data') && _readOffset < _fileSize)
    _readOffset += get32LittleEndian() + 4;\<close>
  The compound assignment reads \<open>_readOffset\<close> before it calls
  \<open>get32LittleEndian\<close>, so the four bytes of the size field are not counted twice.
  The loop has no bound of its own: not returning is \<open>None\<close>.
\<close>

datatype scan = ScanThrew | ScanEnd ByteReader

partial_function (option) findDataChunk :: "ByteReader \<Rightarrow> scan option" where
  "findDataChunk r =
     (case getCheckSignature ''data'' r of
        None \<Rightarrow> Some ScanThrew
      | Some (found, r1) \<Rightarrow>
          if \<not> found \<and> readOffset r1 < fileSize r1 then
            (case get32LittleEndian r1 of
               None \<Rightarrow> Some ScanThrew
             | Some (n, r2) \<Rightarrow> findDataChunk (r2\<lparr>readOffset := readOffset r1 + (n + 4)\<rparr>))
          else Some (ScanEnd r1))"

text \<open>
  \<open>new Float32Array(n)\<close>: the length is \<open>n\<close> truncated towards zero, NaN counts
  as 0, and a negative or infinite length throws a RangeError.  (The limit an
  engine puts on the size of an allocation is not modelled.)
\<close>

fun float32ArrayLength :: "jsnum \<Rightarrow> nat option" where
  "float32ArrayLength (Fin x) =
     (let t = (if 0 \<le> x then \<lfloor>x\<rfloor> else \<lceil>x\<rceil>) in if t < 0 then None else Some (nat t))"
| "float32ArrayLength NaN = Some 0"
| "float32ArrayLength PosInf = None"
| "float32ArrayLength NegInf = None"

text \<open>
  The inner loop of the sample read, at sample index \<open>k\<close>: one sample for each
  channel, rounded to single precision by the store.  A store past the end of a
  typed array is dropped.  The second component is \<open>None\<close> when a read threw.
\<close>

fun storeChannels ::
  "int \<Rightarrow> nat \<Rightarrow> nat list \<Rightarrow> real list option list \<Rightarrow> ByteReader
   \<Rightarrow> real list option list \<times> ByteReader option" where
  "storeChannels bits k [] pcm r = (pcm, Some r)"
| "storeChannels bits k (c # cs) pcm r =
     (case (if c < length pcm then pcm ! c else None) of
        None \<Rightarrow> (pcm, None)
      | Some chan \<Rightarrow>
          (case getPcmSample bits r of
             None \<Rightarrow> (pcm, None)
           | Some (v, r') \<Rightarrow> storeChannels bits k cs (pcm[c := Some (chan[k := fround v])]) r'))"

fun readSamples ::
  "int \<Rightarrow> nat list \<Rightarrow> nat list \<Rightarrow> real list option list \<Rightarrow> ByteReader
   \<Rightarrow> real list option list \<times> ByteReader option" where
  "readSamples bits cs [] pcm r = (pcm, Some r)"
| "readSamples bits cs (k # ks) pcm r =
     (case storeChannels bits k cs pcm r of
        (pcm', None) \<Rightarrow> (pcm', None)
      | (pcm', Some r') \<Rightarrow> readSamples bits cs ks pcm' r')"

text \<open>
  From the size field of the \<open>data\<close> chunk to the end.  \<open>new Array\<close> of a
  negative length throws (the parse itself reads a channel count from 0 on).  With no channel the
  sample loop has an empty body and runs while \<open>sampleCount < samplesPerChannel\<close>,
  which never ends for \<open>Infinity\<close>.  With a channel, an infinite
  \<open>samplesPerChannel\<close> has already made the allocation throw.
\<close>

definition readPcm :: "ByteReader \<Rightarrow> LAppWavFileHandler \<Rightarrow> (bool \<times> LAppWavFileHandler) option" where
  "readPcm r h =
     (case get32LittleEndian r of
        None \<Rightarrow> Some (False, h)
      | Some (dataChunkSize, r1) \<Rightarrow>
          let info = wavFileInfo h;
              spc = js_div (real_of_int (dataChunkSize * 8))
                           (real_of_int (bitsPerSample info * numberOfChannels info));
              h1 = h\<lparr>wavFileInfo := info\<lparr>samplesPerChannel := spc\<rparr>\<rparr>;
              nch = nat (numberOfChannels info)
          in if numberOfChannels info < 0 then Some (False, h1)
             else if nch = 0 then
               (if spc = PosInf then None else Some (True, h1\<lparr>pcmData := Some []\<rparr>))
             else
               (case float32ArrayLength spc of
                  None \<Rightarrow> Some (False, h1\<lparr>pcmData := Some (replicate nch None)\<rparr>)
                | Some len \<Rightarrow>
                    (case readSamples (bitsPerSample info) [0..<nch]
                            [0..<(case spc of Fin x \<Rightarrow> nat \<lceil>x\<rceil> | _ \<Rightarrow> 0)]
                            (replicate nch (Some (replicate len 0))) r1 of
                       (pcm, None) \<Rightarrow> Some (False, h1\<lparr>pcmData := Some pcm\<rparr>)
                     | (pcm, Some _) \<Rightarrow> Some (True, h1\<lparr>pcmData := Some pcm\<rparr>))))"

text \<open>
  \<open>loadWavFile\<close>, given what the fetch delivered (\<open>None\<close>: the fetch or the read
  of its body was rejected).  Everything after the release of the old data is
  inside \<open>try\<close>, and the \<open>catch\<close> returns \<open>false\<close>.  \<open>None\<close>: the call never
  returns.
\<close>

definition loadWavFile ::
  "byte list option \<Rightarrow> LAppWavFileHandler \<Rightarrow> (bool \<times> LAppWavFileHandler) option" where
  "loadWavFile fetched h0 =
     (let h = (if pcmData h0 \<noteq> None then releasePcmData h0 else h0) in
      case fetched of
        None \<Rightarrow> Some (False, h)
      | Some bytes \<Rightarrow>
          (case parseFmt \<lparr>fileByte = bytes, fileSize = int (length bytes), readOffset = 0\<rparr> h of
             Inl h' \<Rightarrow> Some (False, h')
           | Inr (r, h') \<Rightarrow>
               (case findDataChunk r of
                  None \<Rightarrow> None
                | Some ScanThrew \<Rightarrow> Some (False, h')
                | Some (ScanEnd r1) \<Rightarrow>
                    if readOffset r1 \<ge> fileSize r1 then Some (False, h') else readPcm r1 h')))"

text \<open>
  \<open>start\<close> resets the clock and calls \<open>loadWavFile\<close>, which runs up to its
  first \<open>await\<close> before \<open>start\<close> returns: the old data is released at once.
  The rest of \<open>loadWavFile\<close> runs when the fetch has ended; it is
  \<open>loadWavFile\<close> above on the handler as it is then.
\<close>

definition start :: "LAppWavFileHandler \<Rightarrow> LAppWavFileHandler" where
  "start h =
     (let h1 = h\<lparr>sampleOffset := 0, userTimeSeconds := 0, lastRms := Fin 0\<rparr>
      in if pcmData h1 \<noteq> None then releasePcmData h1 else h1)"

definition getRms :: "LAppWavFileHandler \<Rightarrow> jsnum" where
  "getRms h = lastRms h"

text \<open>
  \<open>chan[s]\<close> on a \<open>Float32Array\<close>: \<open>undefined\<close> (\<open>None\<close>) unless \<open>s\<close> is an
  index of the array.
\<close>

definition sampleAt :: "real list \<Rightarrow> real \<Rightarrow> real option" where
  "sampleAt chan s =
     (if s = real_of_int \<lfloor>s\<rfloor> \<and> 0 \<le> s \<and> nat \<lfloor>s\<rfloor> < length chan
      then Some (chan ! nat \<lfloor>s\<rfloor>) else None)"

text \<open>
  \<open>rms += pcm * pcm\<close> over the samples \<open>ss\<close> of one channel.  The sum is
  \<open>None\<close> once it is NaN, which an \<open>undefined\<close> sample makes it.
\<close>

fun sumSamples :: "real list \<Rightarrow> real list \<Rightarrow> real option \<Rightarrow> real option" where
  "sumSamples chan [] rms = rms"
| "sumSamples chan (s # ss) rms =
     sumSamples chan ss
       (case (rms, sampleAt chan s) of (Some a, Some pcm) \<Rightarrow> Some (a + pcm * pcm) | _ \<Rightarrow> None)"

text \<open>
  The loop over the channels.  Reading a sample of a channel that is
  \<open>undefined\<close> throws a TypeError: the outer \<open>None\<close>.
\<close>

fun sumChannels ::
  "real list option list \<Rightarrow> nat list \<Rightarrow> real list \<Rightarrow> real option \<Rightarrow> real option option" where
  "sumChannels pcm [] ss rms = Some rms"
| "sumChannels pcm (c # cs) ss rms =
     (if ss = [] then sumChannels pcm cs ss rms
      else case (if c < length pcm then pcm ! c else None) of
             None \<Rightarrow> None
           | Some chan \<Rightarrow> sumChannels pcm cs ss (sumSamples chan ss rms))"

text \<open>
  \<open>LAppWavFileHandler.update\<close>.  \<open>Inl h\<close>: a TypeError left the call, with the handler as \<open>h\<close>.
  The target offset is finite where it is used: \<open>samplesPerChannel\<close> replaces it
  only when it is smaller than a finite number and not below \<open>sampleOffset\<close>.
\<close>

definition LAppWavFileHandler_update ::
  "real \<Rightarrow> LAppWavFileHandler \<Rightarrow> LAppWavFileHandler + (bool \<times> LAppWavFileHandler)" where
  "LAppWavFileHandler_update deltaTimeSeconds h =
     (case pcmData h of
        None \<Rightarrow> Inr (False, h\<lparr>lastRms := Fin 0\<rparr>)
      | Some pcm \<Rightarrow>
          if js_ge (Fin (sampleOffset h)) (samplesPerChannel (wavFileInfo h))
          then Inr (False, h\<lparr>lastRms := Fin 0\<rparr>)
          else
            let h1 = h\<lparr>userTimeSeconds := userTimeSeconds h + deltaTimeSeconds\<rparr>;
                info = wavFileInfo h1;
                goal0 = real_of_int \<lfloor>userTimeSeconds h1 * real_of_int (samplingRate info)\<rfloor>;
                goalOffset =
                  (case samplesPerChannel info of
                     Fin x \<Rightarrow> if x < goal0 then x else goal0
                   | _ \<Rightarrow> goal0);
                ss = map (\<lambda>i. sampleOffset h1 + real i) [0..<nat \<lceil>goalOffset - sampleOffset h1\<rceil>]
            in case sumChannels pcm [0..<nat (numberOfChannels info)] ss (Some 0) of
                 None \<Rightarrow> Inl h1
               | Some acc \<Rightarrow>
                   let rms = js_sqrt
                         (case acc of
                            None \<Rightarrow> NaN
                          | Some a \<Rightarrow>
                              js_div a (real_of_int (numberOfChannels info)
                                          * (goalOffset - sampleOffset h1)))
                   in Inr (True, h1\<lparr>lastRms := rms, sampleOffset := goalOffset\<rparr>))"


section \<open>LAppDefine\<close>

definition ModelDir :: "string list" where
  "ModelDir = [''Haru'', ''Mao'', ''Hiyori'']"

definition ModelDirSize :: int where
  "ModelDirSize = int (length ModelDir)"

definition ResourcesPath :: string where
  "ResourcesPath = ''/''"

definition HitAreaNameHead :: string where
  "HitAreaNameHead = ''Head''"

definition HitAreaNameBody :: string where
  "HitAreaNameBody = ''Body''"

definition MotionGroupTapBody :: string where
  "MotionGroupTapBody = ''TapBody''"

definition PriorityNormal :: int where
  "PriorityNormal = 2"


section \<open>The model setting and the engine\<close>

text \<open>
  What the accessors of \<open>ICubismModelSetting\<close> return for one parsed
  \<open>model3.json\<close>.  Expressions are pairs of a name and a file, motion groups are
  pairs of a group name and the files of its motions, hit areas are pairs of a name
  and a drawable id.
\<close>

record ModelSetting =
  modelFileName :: string
  expressions :: "(string \<times> string) list"
  physicsFileName :: string
  poseFileName :: string
  userDataFile :: string
  eyeBlinkParameterIds :: "string list"
  lipSyncParameterIds :: "string list"
  motionGroups :: "(string \<times> string list) list"
  textureFileNames :: "string list"
  hitAreas :: "(string \<times> string) list"

definition getMotionFiles :: "ModelSetting \<Rightarrow> string \<Rightarrow> string list" where
  "getMotionFiles s grp = (case map_of (motionGroups s) grp of None \<Rightarrow> [] | Some fs \<Rightarrow> fs)"

definition getMotionCount :: "ModelSetting \<Rightarrow> string \<Rightarrow> nat" where
  "getMotionCount s grp = length (getMotionFiles s grp)"

text \<open>
  The Cubism framework is not part of the sources; what the loader needs of it is
  a parameter.  \<open>parseSetting\<close>: the setting that \<open>CubismModelSettingJson\<close> makes of
  a buffer, \<open>None\<close> when that throws.  \<open>mocLoads\<close>: \<open>loadModel\<close> on this buffer
  leaves a model and its model matrix.  \<open>motionLoads\<close>: \<open>loadMotion\<close> on this buffer
  returns a motion and not \<open>null\<close>.  \<open>isHit\<close>: the hit test of a drawable.  The
  last three turn the parameters of the model over one frame: motions, eye blink,
  expressions, drag, breath and physics; then the lip-sync value on the lip-sync
  ids; then pose and the model's own update.
\<close>

type_synonym parameters = "string \<Rightarrow> real"

record Engine =
  parseSetting :: "byte list \<Rightarrow> ModelSetting option"
  mocLoads :: "byte list \<Rightarrow> bool"
  motionLoads :: "byte list \<Rightarrow> bool"
  isHit :: "string \<Rightarrow> real \<Rightarrow> real \<Rightarrow> bool"
  frameBeforeLipSync :: "real \<Rightarrow> real \<times> real \<Rightarrow> parameters \<Rightarrow> parameters"
  frameLipSync :: "jsnum \<Rightarrow> string list \<Rightarrow> parameters \<Rightarrow> parameters"
  frameAfterLipSync :: "real \<Rightarrow> parameters \<Rightarrow> parameters"


section \<open>LAppModel: the load pipeline\<close>

datatype LoadStep =
    LoadAssets | LoadModel | WaitLoadModel | LoadExpression | WaitLoadExpression
  | LoadPhysics | WaitLoadPhysics | LoadPose | WaitLoadPose | SetupEyeBlink | SetupBreath
  | LoadUserData | WaitLoadUserData | SetupEyeBlinkIds | SetupLipSyncIds | SetupLayout
  | LoadMotion | WaitLoadMotion | CompleteInitialize | CompleteSetupModel | LoadTexture
  | WaitLoadTexture | CompleteSetup

text \<open>
  An asynchronous operation that the model has started and whose callback has not
  run yet: a fetch with the \<open>then\<close> handlers chained to it, or the load of a
  texture image with its \<open>onLoad\<close>.  A motion is named by its group and index
  (the source joins them as \<open>group_index\<close>).
\<close>

datatype pendingOp =
    FetchSetting string
  | FetchMoc string
  | FetchExpression string string nat
  | FetchPhysics string
  | FetchPose string
  | FetchUserData string
  | FetchMotion string "string \<times> nat"
  | LoadTextureImage string nat nat

text \<open>
  How an operation ends.  A fetch is rejected (a network error) or resolves with
  a response, which has its \<open>ok\<close> flag and its body.  A texture image loads, and
  then the texture manager calls \<open>onLoad\<close>, or it fails, and then nothing is called.
\<close>

datatype arrival = Rejected | Response bool "byte list" | ImageLoaded | ImageFailed

datatype logEntry = LogError string | LogMessage string

text \<open>The calls that the application makes on the model matrix of the framework.\<close>

datatype matrixCall = SetupFromLayout | SetWidth real

record LAppModel =
  modelSetting :: "ModelSetting option"
  modelHomeDir :: string
  modelUserTimeSeconds :: real
  eyeBlinkIds :: "string list"
  lipSyncIds :: "string list"
  motions :: "((string \<times> nat) \<times> byte list) list"
  expressionMotions :: "(string \<times> byte list) list"
  state :: LoadStep
  expressionCount :: nat
  textureCount :: nat
  motionCount :: int
  allMotionCount :: int
  wavFileHandler :: LAppWavFileHandler
  modelLoaded :: bool
  updating :: bool
  initialized :: bool
  lipsync :: bool
  opacity :: real
  eyeBlink :: bool
  breath :: bool
  rendererCreated :: bool
  boundTextures :: "nat list"
  modelMatrixCalls :: "matrixCall list"
  dragging :: "real \<times> real"
  modelParameters :: parameters
  logged :: "logEntry list"
  pending :: "pendingOp list"

text \<open>
  \<open>new LAppModel()\<close>.  Of the fields of \<open>CubismUserModel\<close>, \<open>modelLoaded\<close> stands
  for \<open>_model\<close> and \<open>_modelMatrix\<close> (both \<open>null\<close> at first), and \<open>lipsync\<close> and
  \<open>opacity\<close> start as \<open>true\<close> and 1.  \<open>logged\<close> collects what goes to
  \<open>CubismLogError\<close> and \<open>LAppPal.printMessage\<close>, without the debug lines, and
  \<open>modelMatrixCalls\<close> the calls made on \<open>_modelMatrix\<close>.
\<close>

definition newLAppModel :: LAppModel where
  "newLAppModel =
     \<lparr>modelSetting = None, modelHomeDir = [], modelUserTimeSeconds = 0,
      eyeBlinkIds = [], lipSyncIds = [], motions = [], expressionMotions = [],
      state = LoadAssets, expressionCount = 0, textureCount = 0, motionCount = 0,
      allMotionCount = 0,
      wavFileHandler =
        \<lparr>pcmData = None, userTimeSeconds = 0, lastRms = Fin 0, sampleOffset = 0,
         wavFileInfo = \<lparr>numberOfChannels = 0, bitsPerSample = 0, samplingRate = 0,
                        samplesPerChannel = Fin 0\<rparr>\<rparr>,
      modelLoaded = False, updating = False, initialized = False, lipsync = True,
      opacity = 1, eyeBlink = False, breath = False, rendererCreated = False,
      boundTextures = [], modelMatrixCalls = [], dragging = (0, 0),
      modelParameters = (\<lambda>_. 0),
      logged = [], pending = []\<rparr>"

definition setupTextures :: "ModelSetting \<Rightarrow> LAppModel \<Rightarrow> LAppModel" where
  "setupTextures s m =
     (if state m = LoadTexture then
        m\<lparr>pending := pending m @
              map (\<lambda>(modelTextureNumber, texturePath).
                     LoadTextureImage (modelHomeDir m @ texturePath) modelTextureNumber
                       (length (textureFileNames s)))
                  (filter (\<lambda>(modelTextureNumber, texturePath). texturePath \<noteq> [])
                          (enumerate 0 (textureFileNames s))),
          state := WaitLoadTexture\<rparr>
      else m)"

text \<open>
  The block that ends the motion stage.  The source has it twice, word for word:
  in \<open>loadCubismMotion\<close> for a setting without motion groups, and in the callback
  of a motion fetch.
\<close>

definition finishMotions :: "ModelSetting \<Rightarrow> LAppModel \<Rightarrow> LAppModel" where
  "finishMotions s m =
     setupTextures s
       (m\<lparr>state := LoadTexture, updating := False, initialized := True,
          rendererCreated := True\<rparr>)"

definition preLoadMotionGroup :: "ModelSetting \<Rightarrow> string \<Rightarrow> pendingOp list" where
  "preLoadMotionGroup s grp =
     map (\<lambda>(i, motionFileName). FetchMotion motionFileName (grp, i))
         (enumerate 0 (getMotionFiles s grp))"

definition loadCubismMotion :: "ModelSetting \<Rightarrow> LAppModel \<Rightarrow> LAppModel" where
  "loadCubismMotion s m =
     (let grp = map fst (motionGroups s);
          m1 = m\<lparr>state := WaitLoadMotion,
                 allMotionCount := int (sum_list (map (getMotionCount s) grp)),
                 motionCount := 0\<rparr>;
          m2 = m1\<lparr>pending := pending m1 @ concat (map (preLoadMotionGroup s) grp)\<rparr>
      in if length grp = 0 then finishMotions s m2 else m2)"

definition setupLayout :: "ModelSetting \<Rightarrow> LAppModel \<Rightarrow> LAppModel" where
  "setupLayout s m =
     (if \<not> modelLoaded m then m\<lparr>logged := logged m @ [LogError ''Failed to setupLayout().'']\<rparr>
      else loadCubismMotion s
             (m\<lparr>modelMatrixCalls := modelMatrixCalls m @ [SetupFromLayout],
                state := LoadMotion\<rparr>))"

definition setupLipSyncIds :: "ModelSetting \<Rightarrow> LAppModel \<Rightarrow> LAppModel" where
  "setupLipSyncIds s m =
     setupLayout s (m\<lparr>lipSyncIds := lipSyncIds m @ lipSyncParameterIds s, state := SetupLayout\<rparr>)"

definition setupEyeBlinkIds :: "ModelSetting \<Rightarrow> LAppModel \<Rightarrow> LAppModel" where
  "setupEyeBlinkIds s m =
     setupLipSyncIds s
       (m\<lparr>eyeBlinkIds := eyeBlinkIds m @ eyeBlinkParameterIds s, state := SetupLipSyncIds\<rparr>)"

definition loadUserDataFile :: "ModelSetting \<Rightarrow> LAppModel \<Rightarrow> LAppModel" where
  "loadUserDataFile s m =
     (if userDataFile s \<noteq> [] then
        m\<lparr>pending := pending m @ [FetchUserData (userDataFile s)], state := WaitLoadUserData\<rparr>
      else setupEyeBlinkIds s (m\<lparr>state := SetupEyeBlinkIds\<rparr>))"

definition setupBreath :: "ModelSetting \<Rightarrow> LAppModel \<Rightarrow> LAppModel" where
  "setupBreath s m = loadUserDataFile s (m\<lparr>breath := True, state := LoadUserData\<rparr>)"

definition setupEyeBlink :: "ModelSetting \<Rightarrow> LAppModel \<Rightarrow> LAppModel" where
  "setupEyeBlink s m =
     setupBreath s (if length (eyeBlinkParameterIds s) > 0 then m\<lparr>eyeBlink := True\<rparr> else m)"

definition loadCubismPose :: "ModelSetting \<Rightarrow> LAppModel \<Rightarrow> LAppModel" where
  "loadCubismPose s m =
     (if poseFileName s \<noteq> [] then
        m\<lparr>pending := pending m @ [FetchPose (poseFileName s)], state := WaitLoadPose\<rparr>
      else setupEyeBlink s (m\<lparr>state := SetupEyeBlink\<rparr>))"

definition loadCubismPhysics :: "ModelSetting \<Rightarrow> LAppModel \<Rightarrow> LAppModel" where
  "loadCubismPhysics s m =
     (if physicsFileName s \<noteq> [] then
        m\<lparr>pending := pending m @ [FetchPhysics (physicsFileName s)], state := WaitLoadPhysics\<rparr>
      else loadCubismPose s (m\<lparr>state := LoadPose\<rparr>))"

definition loadCubismExpression :: "ModelSetting \<Rightarrow> LAppModel \<Rightarrow> LAppModel" where
  "loadCubismExpression s m =
     (if length (expressions s) > 0 then
        m\<lparr>pending := pending m @
              map (\<lambda>(expressionName, expressionFileName).
                     FetchExpression expressionFileName expressionName (length (expressions s)))
                  (expressions s),
          state := WaitLoadExpression\<rparr>
      else loadCubismPhysics s (m\<lparr>state := LoadPhysics\<rparr>))"

definition setupModel :: "ModelSetting \<Rightarrow> LAppModel \<Rightarrow> LAppModel" where
  "setupModel s m =
     (let m1 = m\<lparr>updating := True, initialized := False, modelSetting := Some s\<rparr>
      in if modelFileName s \<noteq> [] then
           m1\<lparr>pending := pending m1 @ [FetchMoc (modelFileName s)], state := WaitLoadModel\<rparr>
         else m1\<lparr>logged := logged m1 @ [LogMessage ''Model data does not exist.'']\<rparr>)"

definition loadAssets :: "string \<Rightarrow> string \<Rightarrow> LAppModel \<Rightarrow> LAppModel" where
  "loadAssets dir fileName m =
     m\<lparr>modelHomeDir := dir, pending := pending m @ [FetchSetting fileName]\<rparr>"

text \<open>
  The buffer that the first \<open>then\<close> of a sub-resource fetch hands on: the body of
  an ok response, and \<open>new ArrayBuffer(0)\<close> otherwise.
\<close>

definition bodyOrEmpty :: "bool \<Rightarrow> byte list \<Rightarrow> byte list" where
  "bodyOrEmpty ok body = (if ok then body else [])"

text \<open>\<open>csmMap.setValue\<close>: the value of an existing key is replaced.\<close>

definition setValue :: "'k \<Rightarrow> 'v \<Rightarrow> ('k \<times> 'v) list \<Rightarrow> ('k \<times> 'v) list" where
  "setValue k v kvs =
     (if k \<in> set (map fst kvs) then map (\<lambda>(k', v'). if k' = k then (k', v) else (k', v')) kvs
      else kvs @ [(k, v)])"

text \<open>
  The callbacks.  \<open>handle\<close> runs the handlers chained to the operation \<open>op\<close> on
  the arrival \<open>a\<close>; the operation is no longer pending.  Only \<open>loadAssets\<close> has a
  \<open>catch\<close>: a rejected fetch of any other file runs no handler at all.  The
  setting is there whenever one of the other operations is pending, which
  \<open>setupModel\<close> started after storing it.
\<close>

definition handleFetch :: "Engine \<Rightarrow> ModelSetting \<Rightarrow> pendingOp \<Rightarrow> bool \<Rightarrow> byte list \<Rightarrow> LAppModel \<Rightarrow> LAppModel" where
  "handleFetch eng s op ok body m =
     (case op of
        FetchMoc modelFile \<Rightarrow>
          (let m1 = (if ok then m
                     else m\<lparr>logged := logged m @
                            [LogError (''Failed to load file '' @ modelHomeDir m @ modelFile)]\<rparr>);
               m2 = m1\<lparr>modelLoaded := (modelLoaded m1 \<or> mocLoads eng (bodyOrEmpty ok body))\<rparr>
           in loadCubismExpression s (m2\<lparr>state := LoadExpression\<rparr>))
      | FetchExpression expressionFileName expressionName count \<Rightarrow>
          (let m1 = m\<lparr>expressionMotions :=
                        setValue expressionName (bodyOrEmpty ok body) (expressionMotions m),
                      expressionCount := expressionCount m + 1\<rparr>
           in if expressionCount m1 \<ge> count
              then loadCubismPhysics s (m1\<lparr>state := LoadPhysics\<rparr>) else m1)
      | FetchPhysics physicsFile \<Rightarrow> loadCubismPose s (m\<lparr>state := LoadPose\<rparr>)
      | FetchPose poseFile \<Rightarrow> setupEyeBlink s (m\<lparr>state := SetupEyeBlink\<rparr>)
      | FetchUserData userData \<Rightarrow> setupEyeBlinkIds s (m\<lparr>state := SetupEyeBlinkIds\<rparr>)
      | FetchMotion motionFileName name \<Rightarrow>
          (let m1 = (if motionLoads eng (bodyOrEmpty ok body)
                     then m\<lparr>motions := setValue name (bodyOrEmpty ok body) (motions m),
                            motionCount := motionCount m + 1\<rparr>
                     else m\<lparr>allMotionCount := allMotionCount m - 1\<rparr>)
           in if motionCount m1 \<ge> allMotionCount m1 then finishMotions s m1 else m1)
      | _ \<Rightarrow> m)"

definition handle :: "Engine \<Rightarrow> pendingOp \<Rightarrow> arrival \<Rightarrow> LAppModel \<Rightarrow> LAppModel" where
  "handle eng op a m =
     (case op of
        FetchSetting fileName \<Rightarrow>
          (case a of
             Response ok body \<Rightarrow>
               (case parseSetting eng body of
                  Some s \<Rightarrow> setupModel s (m\<lparr>state := LoadModel\<rparr>)
                | None \<Rightarrow>
                    m\<lparr>logged := logged m @
                         [LogError (''Failed to load file '' @ modelHomeDir m @ fileName)]\<rparr>)
           | _ \<Rightarrow>
               m\<lparr>logged := logged m @
                    [LogError (''Failed to load file '' @ modelHomeDir m @ fileName)]\<rparr>)
      | LoadTextureImage fullPath modelTextureNumber count \<Rightarrow>
          (case a of
             ImageLoaded \<Rightarrow>
               (let m1 = m\<lparr>boundTextures := boundTextures m @ [modelTextureNumber],
                           textureCount := textureCount m + 1\<rparr>
                in if textureCount m1 \<ge> count then m1\<lparr>state := CompleteSetup\<rparr> else m1)
           | _ \<Rightarrow> m)
      | _ \<Rightarrow>
          (case a of
             Response ok body \<Rightarrow>
               (case modelSetting m of
                  Some s \<Rightarrow> handleFetch eng s op ok body m
                | None \<Rightarrow> m)
           | _ \<Rightarrow> m))"

text \<open>
  An arrival that an operation can have: a fetch is rejected or answered, an image
  loads or fails.
\<close>

fun fits :: "pendingOp \<Rightarrow> arrival \<Rightarrow> bool" where
  "fits (LoadTextureImage _ _ _) a = (a = ImageLoaded \<or> a = ImageFailed)"
| "fits _ a = (a \<noteq> ImageLoaded \<and> a \<noteq> ImageFailed)"

text \<open>
  One turn of the event loop for this model: the pending operation number \<open>k\<close>
  ends with the arrival \<open>a\<close> and its callback runs to completion.  The operations
  may end in any order.  Where there is no such operation nothing happens.
\<close>

definition deliver :: "Engine \<Rightarrow> nat \<Rightarrow> arrival \<Rightarrow> LAppModel \<Rightarrow> LAppModel" where
  "deliver eng k a m =
     (if k < length (pending m) \<and> fits (pending m ! k) a
      then handle eng (pending m ! k) a
             (m\<lparr>pending := take k (pending m) @ drop (Suc k) (pending m)\<rparr>)
      else m)"

fun deliverAll :: "Engine \<Rightarrow> (nat \<times> arrival) list \<Rightarrow> LAppModel \<Rightarrow> LAppModel" where
  "deliverAll eng [] m = m"
| "deliverAll eng ((k, a) # es) m = deliverAll eng es (deliver eng k a m)"

text \<open>
  Every event of the list ends an operation that is pending when its turn comes,
  with an arrival that it can have.
\<close>

fun arrivals :: "Engine \<Rightarrow> (nat \<times> arrival) list \<Rightarrow> LAppModel \<Rightarrow> bool" where
  "arrivals eng [] m = True"
| "arrivals eng ((k, a) # es) m =
     (k < length (pending m) \<and> fits (pending m ! k) a \<and> arrivals eng es (deliver eng k a m))"


subsection \<open>The frame\<close>

text \<open>
  \<open>LAppModel.update\<close>.  The first line is the guard.  Behind it the engine turns
  the parameters; in between, with \<open>_lipsync\<close> set, the audio envelope is advanced
  and its value goes to the lip-sync ids.  \<open>Inl m\<close>: an exception left the call
  with the model as \<open>m\<close>.  The start of an idle motion at the end of a motion is
  left to the engine.
\<close>

definition LAppModel_update :: "Engine \<Rightarrow> real \<Rightarrow> LAppModel \<Rightarrow> LAppModel + LAppModel" where
  "LAppModel_update eng deltaTimeSeconds m =
     (if state m \<noteq> CompleteSetup then Inr m
      else
        let m1 = m\<lparr>modelUserTimeSeconds := modelUserTimeSeconds m + deltaTimeSeconds,
                   modelParameters :=
                     frameBeforeLipSync eng deltaTimeSeconds (dragging m) (modelParameters m)\<rparr>
        in if lipsync m1 then
             (case LAppWavFileHandler_update deltaTimeSeconds (wavFileHandler m1) of
                Inl h \<Rightarrow> Inl (m1\<lparr>wavFileHandler := h\<rparr>)
              | Inr (_, h) \<Rightarrow>
                  Inr (m1\<lparr>wavFileHandler := h,
                          modelParameters :=
                            frameAfterLipSync eng deltaTimeSeconds
                              (frameLipSync eng (getRms h) (lipSyncIds m1) (modelParameters m1))\<rparr>))
           else Inr (m1\<lparr>modelParameters :=
                           frameAfterLipSync eng deltaTimeSeconds (modelParameters m1)\<rparr>))"

datatype rendererCall = SetMvpMatrix | SetRenderState | DrawModel

text \<open>\<open>LAppModel.draw\<close> with \<open>doDraw\<close>: the calls that reach the renderer.\<close>

definition draw :: "LAppModel \<Rightarrow> rendererCall list" where
  "draw m =
     (if \<not> modelLoaded m then []
      else if state m = CompleteSetup then [SetMvpMatrix, SetRenderState, DrawModel]
      else [])"

text \<open>
  \<open>LAppModel.hitTest\<close>: the first hit area of that name decides.  \<open>None\<close>: a
  TypeError left the call, which reads the hit areas of \<open>_modelSetting\<close> without a
  check for \<open>null\<close>.
\<close>

definition hitTest :: "Engine \<Rightarrow> LAppModel \<Rightarrow> string \<Rightarrow> real \<Rightarrow> real \<Rightarrow> bool option" where
  "hitTest eng m hitArenaName x y =
     (if opacity m < 1 then Some False
      else case modelSetting m of
             None \<Rightarrow> None
           | Some s \<Rightarrow>
               Some (case find (\<lambda>(areaName, drawId). areaName = hitArenaName) (hitAreas s) of
                       None \<Rightarrow> False
                     | Some (areaName, drawId) \<Rightarrow> isHit eng drawId x y))"


section \<open>LAppTextureManager\<close>

text \<open>
  \<open>img\<close> and \<open>texId\<close> (the field \<open>id\<close> of the source) name an \<open>Image\<close>
  object and a texture of the graphics context by the number of their creation.
\<close>

record TextureInfo =
  img :: nat
  texId :: nat
  width :: nat
  height :: nat
  usePremultply :: bool
  fileName :: string

text \<open>
  An image that has been given its \<open>load\<close> listener and its \<open>src\<close> and has not
  loaded yet.  The listener of a cache hit holds the iterator, that is the position
  in \<open>_textures\<close>, and the callback; the listener of a miss holds the file name,
  the flag, the callback and the image.  Callbacks are named by numbers.
\<close>

datatype imageLoad = Registered nat nat | Fresh string bool nat nat

text \<open>
  The texture manager with what surrounds it: \<open>textures\<close> is its \<open>_textures\<close>;
  \<open>decoding\<close> are the images under way, \<open>delivered\<close> the calls of callbacks so
  far, each with the record it was given (\<open>None\<close> for \<open>undefined\<close>), \<open>images\<close>
  and \<open>glTextures\<close> count the objects created, \<open>deleted\<close> are the textures handed
  to \<open>deleteTexture\<close>.
\<close>

record LAppTextureManager =
  textures :: "TextureInfo list"
  decoding :: "imageLoad list"
  delivered :: "(nat \<times> TextureInfo option) list"
  images :: nat
  glTextures :: nat
  deleted :: "nat list"

definition newLAppTextureManager :: LAppTextureManager where
  "newLAppTextureManager =
     \<lparr>textures = [], decoding = [], delivered = [], images = 0, glTextures = 0, deleted = []\<rparr>"

definition release :: "LAppTextureManager \<Rightarrow> LAppTextureManager" where
  "release w = w\<lparr>deleted := deleted w @ map texId (textures w), textures := []\<rparr>"

definition createTextureFromPngFile ::
  "string \<Rightarrow> bool \<Rightarrow> nat \<Rightarrow> LAppTextureManager \<Rightarrow> LAppTextureManager" where
  "createTextureFromPngFile file usePremultiply callback w =
     (case find (\<lambda>(ite, t). fileName t = file \<and> usePremultply t = usePremultiply)
                (enumerate 0 (textures w)) of
        Some (ite, t) \<Rightarrow>
          w\<lparr>textures := (textures w)[ite := t\<lparr>img := images w\<rparr>],
            decoding := decoding w @ [Registered ite callback],
            images := images w + 1\<rparr>
      | None \<Rightarrow>
          w\<lparr>decoding := decoding w @ [Fresh file usePremultiply callback (images w)],
            images := images w + 1\<rparr>)"

text \<open>
  The \<open>load\<close> event of the image number \<open>k\<close> under way, which has the size
  \<open>w0\<close> by \<open>h0\<close>: its listener runs.
\<close>

definition imageLoaded :: "nat \<Rightarrow> nat \<Rightarrow> nat \<Rightarrow> LAppTextureManager \<Rightarrow> LAppTextureManager" where
  "imageLoaded k w0 h0 w =
     (if k < length (decoding w) then
        (let w1 = w\<lparr>decoding := take k (decoding w) @ drop (Suc k) (decoding w)\<rparr>
         in case decoding w ! k of
              Registered ite callback \<Rightarrow>
                w1\<lparr>delivered := delivered w1 @
                     [(callback, if ite < length (textures w1) then Some (textures w1 ! ite) else None)]\<rparr>
            | Fresh file usePremultiply callback newImage \<Rightarrow>
                (let textureInfo = \<lparr>img = newImage, texId = glTextures w1, width = w0, height = h0,
                                     usePremultply = usePremultiply, fileName = file\<rparr>
                 in w1\<lparr>textures := textures w1 @ [textureInfo],
                       delivered := delivered w1 @ [(callback, Some textureInfo)],
                       glTextures := glTextures w1 + 1\<rparr>))
      else w)"

datatype textureEvent = Acquire string bool nat | Loaded nat nat nat

fun textureStep :: "textureEvent \<Rightarrow> LAppTextureManager \<Rightarrow> LAppTextureManager" where
  "textureStep (Acquire file usePremultiply callback) w =
     createTextureFromPngFile file usePremultiply callback w"
| "textureStep (Loaded k w0 h0) w = imageLoaded k w0 h0 w"

fun textureRun :: "textureEvent list \<Rightarrow> LAppTextureManager \<Rightarrow> LAppTextureManager" where
  "textureRun [] w = w"
| "textureRun (e # es) w = textureRun es (textureStep e w)"

definition textureKey :: "TextureInfo \<Rightarrow> string \<times> bool" where
  "textureKey t = (fileName t, usePremultply t)"

text \<open>The keys for which a first decode is under way.\<close>

fun freshKeys :: "imageLoad list \<Rightarrow> (string \<times> bool) list" where
  "freshKeys [] = []"
| "freshKeys (Fresh file usePremultiply callback newImage # ds) = (file, usePremultiply) # freshKeys ds"
| "freshKeys (Registered ite callback # ds) = freshKeys ds"

text \<open>
  A sequence of events in which no texture is asked for while the first decode of
  the same key is still under way.
\<close>

fun unhurried :: "textureEvent list \<Rightarrow> LAppTextureManager \<Rightarrow> bool" where
  "unhurried [] w = True"
| "unhurried (Acquire file usePremultiply callback # es) w =
     ((file, usePremultiply) \<notin> set (freshKeys (decoding w)) \<and>
      unhurried es (createTextureFromPngFile file usePremultiply callback w))"
| "unhurried (Loaded k w0 h0 # es) w = unhurried es (imageLoaded k w0 h0 w)"


section \<open>TouchManager\<close>

text \<open>
  Modelled from the spec: \<open>TouchManager.ts\<close> is not among the sources.  The spec
  has one drag anchor: pointer-down records the scaled canvas coordinates as the
  anchor, pointer-move updates the anchor.  \<open>getX\<close> and \<open>getY\<close> read it.
\<close>

record TouchManager =
  lastX :: real
  lastY :: real

definition touchesBegan :: "real \<Rightarrow> real \<Rightarrow> TouchManager \<Rightarrow> TouchManager" where
  "touchesBegan deviceX deviceY t = t\<lparr>lastX := deviceX, lastY := deviceY\<rparr>"

definition touchesMoved :: "real \<Rightarrow> real \<Rightarrow> TouchManager \<Rightarrow> TouchManager" where
  "touchesMoved deviceX deviceY t = t\<lparr>lastX := deviceX, lastY := deviceY\<rparr>"

definition getX :: "TouchManager \<Rightarrow> real" where
  "getX t = lastX t"

definition getY :: "TouchManager \<Rightarrow> real" where
  "getY t = lastY t"


section \<open>LAppLive2DManager\<close>

text \<open>
  The two matrices of the manager belong to the framework.  They are taken as the
  four maps that the manager uses of them: \<open>_deviceToScreen.transformX/Y\<close> and
  \<open>_viewMatrix.invertTransformX/Y\<close>.
\<close>

record Projection =
  deviceToScreenX :: "real \<Rightarrow> real"
  deviceToScreenY :: "real \<Rightarrow> real"
  viewInvertX :: "real \<Rightarrow> real"
  viewInvertY :: "real \<Rightarrow> real"

text \<open>
  What the handlers read from outside the manager: the offsets of the canvas and
  the pixel ratio for a pointer event; the width and height of the canvas and the
  canvas width that the framework reports for the loaded model for a frame.
\<close>

record Page =
  offsetLeft :: real
  offsetTop :: real
  devicePixelRatio :: real
  canvasWidth :: real
  canvasHeight :: real
  modelCanvasWidth :: real

record LAppLive2DManager =
  textureManager :: LAppTextureManager
  projection :: Projection
  models :: "LAppModel list"
  sceneIndex :: int
  touchManager :: TouchManager
  captured :: bool

definition newLAppLive2DManager :: "Projection \<Rightarrow> LAppLive2DManager" where
  "newLAppLive2DManager pr =
     \<lparr>textureManager = newLAppTextureManager, projection = pr, models = [], sceneIndex = 0,
      touchManager = \<lparr>lastX = 0, lastY = 0\<rparr>, captured = False\<rparr>"

text \<open>\<open>LAppDefine.ModelDir[index]\<close> inside a string: \<open>undefined\<close> outside the array.\<close>

definition modelDirAt :: "int \<Rightarrow> string" where
  "modelDirAt index =
     (if 0 \<le> index \<and> index < int (length ModelDir) then ModelDir ! nat index
      else ''undefined'')"

definition releaseAllModel :: "LAppLive2DManager \<Rightarrow> LAppLive2DManager" where
  "releaseAllModel mgr = mgr\<lparr>models := []\<rparr>"

definition changeScene :: "int \<Rightarrow> LAppLive2DManager \<Rightarrow> LAppLive2DManager" where
  "changeScene index mgr =
     (let mgr1 = mgr\<lparr>sceneIndex := index\<rparr>;
          modelPath = ResourcesPath @ modelDirAt index @ ''/'';
          modelJsonName = modelDirAt index @ ''.model3.json'';
          mgr2 = releaseAllModel mgr1;
          instance = loadAssets modelPath modelJsonName newLAppModel
      in mgr2\<lparr>models := models mgr2 @ [instance]\<rparr>)"

text \<open>The remainder of JavaScript takes the sign of the dividend.\<close>

definition js_rem :: "int \<Rightarrow> int \<Rightarrow> int" where
  "js_rem a b = sgn a * (\<bar>a\<bar> mod \<bar>b\<bar>)"

definition nextScene :: "LAppLive2DManager \<Rightarrow> LAppLive2DManager" where
  "nextScene mgr = changeScene (js_rem (sceneIndex mgr + 1) ModelDirSize) mgr"

definition initialize :: "bool \<Rightarrow> LAppLive2DManager \<Rightarrow> LAppLive2DManager \<times> bool" where
  "initialize glInitialized mgr =
     (if \<not> glInitialized then (mgr, False) else (changeScene (sceneIndex mgr) mgr, True))"

definition releaseManager :: "LAppLive2DManager \<Rightarrow> LAppLive2DManager" where
  "releaseManager mgr = releaseAllModel (mgr\<lparr>textureManager := release (textureManager mgr)\<rparr>)"

definition onDrag :: "real \<Rightarrow> real \<Rightarrow> LAppLive2DManager \<Rightarrow> LAppLive2DManager" where
  "onDrag x y mgr =
     (case models mgr of
        [] \<Rightarrow> mgr
      | model # rest \<Rightarrow> mgr\<lparr>models := model\<lparr>dragging := (x, y)\<rparr> # rest\<rparr>)"

text \<open>
  \<open>onTap\<close>: which reaction of the model is called.  The reactions draw a random
  number and act through the engine; they are not followed further.  \<open>None\<close>: a
  hit test threw.
\<close>

datatype reaction = NoReaction | SetRandomExpression | StartRandomMotion string int

definition onTap :: "Engine \<Rightarrow> real \<Rightarrow> real \<Rightarrow> LAppLive2DManager \<Rightarrow> reaction option" where
  "onTap eng x y mgr =
     (case models mgr of
        [] \<Rightarrow> Some NoReaction
      | model # rest \<Rightarrow>
          (case hitTest eng model HitAreaNameHead x y of
             None \<Rightarrow> None
           | Some True \<Rightarrow> Some SetRandomExpression
           | Some False \<Rightarrow>
               (case hitTest eng model HitAreaNameBody x y of
                  None \<Rightarrow> None
                | Some True \<Rightarrow> Some (StartRandomMotion MotionGroupTapBody PriorityNormal)
                | Some False \<Rightarrow> Some NoReaction)))"

definition transformViewX :: "LAppLive2DManager \<Rightarrow> real \<Rightarrow> real" where
  "transformViewX mgr deviceX = viewInvertX (projection mgr) (deviceToScreenX (projection mgr) deviceX)"

definition transformViewY :: "LAppLive2DManager \<Rightarrow> real \<Rightarrow> real" where
  "transformViewY mgr deviceY = viewInvertY (projection mgr) (deviceToScreenY (projection mgr) deviceY)"

definition onPointBegan :: "Page \<Rightarrow> real \<Rightarrow> real \<Rightarrow> LAppLive2DManager \<Rightarrow> LAppLive2DManager" where
  "onPointBegan page pageX pageY mgr =
     (let mgr1 = mgr\<lparr>captured := True\<rparr>;
          localX = pageX - offsetLeft page;
          localY = pageY - offsetTop page
      in mgr1\<lparr>touchManager :=
                touchesBegan (localX * devicePixelRatio page) (localY * devicePixelRatio page)
                  (touchManager mgr1)\<rparr>)"

definition onPointMoved :: "Page \<Rightarrow> real \<Rightarrow> real \<Rightarrow> LAppLive2DManager \<Rightarrow> LAppLive2DManager" where
  "onPointMoved page pageX pageY mgr =
     (if \<not> captured mgr then mgr
      else
        let localX = pageX - offsetLeft page;
            localY = pageY - offsetTop page;
            posX = localX * devicePixelRatio page;
            posY = localY * devicePixelRatio page;
            viewX = transformViewX mgr (getX (touchManager mgr));
            viewY = transformViewY mgr (getY (touchManager mgr));
            mgr1 = mgr\<lparr>touchManager := touchesMoved posX posY (touchManager mgr)\<rparr>
        in onDrag viewX viewY mgr1)"

text \<open>
  \<open>onPointEnded\<close>: the manager as the call leaves it, and the reaction; \<open>None\<close>
  when \<open>onTap\<close> threw, which is after the capture and the drag have been reset.
\<close>

definition onPointEnded ::
  "Engine \<Rightarrow> Page \<Rightarrow> real \<Rightarrow> real \<Rightarrow> LAppLive2DManager
   \<Rightarrow> LAppLive2DManager \<times> reaction option" where
  "onPointEnded eng page pageX pageY mgr =
     (let mgr1 = mgr\<lparr>captured := False\<rparr>;
          localX = pageX - offsetLeft page;
          localY = pageY - offsetTop page;
          posX = localX * devicePixelRatio page;
          posY = localY * devicePixelRatio page;
          mgr2 = onDrag 0 0 mgr1;
          x = transformViewX mgr2 posX;
          y = transformViewY mgr2 posY
      in (mgr2, onTap eng x y mgr2))"

text \<open>
  \<open>onUpdate\<close>.  Before the model is updated and drawn, a loaded model that is
  wider than 1 gets its model matrix set to the width 2 on a canvas that is higher
  than wide.  The projection matrix that is built alongside is handed to \<open>draw\<close>,
  whose calls of the renderer are named without their arguments.  When \<open>update\<close>
  throws, \<open>draw\<close> is not reached.
\<close>

definition onUpdate ::
  "Engine \<Rightarrow> Page \<Rightarrow> real \<Rightarrow> LAppLive2DManager \<Rightarrow> LAppLive2DManager \<times> rendererCall list" where
  "onUpdate eng page deltaTime mgr =
     (case models mgr of
        [] \<Rightarrow> (mgr, [])
      | model # rest \<Rightarrow>
          (let model1 =
                 (if modelLoaded model \<and> modelCanvasWidth page > 1 \<and>
                     canvasWidth page < canvasHeight page
                  then model\<lparr>modelMatrixCalls := modelMatrixCalls model @ [SetWidth 2]\<rparr>
                  else model)
           in case LAppModel_update eng deltaTime model1 of
                Inl model' \<Rightarrow> (mgr\<lparr>models := model' # rest\<rparr>, [])
              | Inr model' \<Rightarrow> (mgr\<lparr>models := model' # rest\<rparr>, draw model')))"

text \<open>
  What can happen to a manager, one after the other: calls from the viewer, the
  frame, and the end of an asynchronous operation of the model it holds.
\<close>

datatype managerEvent =
    ChangeScene int
  | NextScene
  | ReleaseManager
  | PointBegan real real
  | PointMoved real real
  | PointEnded real real
  | Frame real
  | Arrives nat arrival

fun managerStep :: "Engine \<Rightarrow> Page \<Rightarrow> managerEvent \<Rightarrow> LAppLive2DManager \<Rightarrow> LAppLive2DManager" where
  "managerStep eng page (ChangeScene index) mgr = changeScene index mgr"
| "managerStep eng page NextScene mgr = nextScene mgr"
| "managerStep eng page ReleaseManager mgr = releaseManager mgr"
| "managerStep eng page (PointBegan pageX pageY) mgr = onPointBegan page pageX pageY mgr"
| "managerStep eng page (PointMoved pageX pageY) mgr = onPointMoved page pageX pageY mgr"
| "managerStep eng page (PointEnded pageX pageY) mgr = fst (onPointEnded eng page pageX pageY mgr)"
| "managerStep eng page (Frame deltaTime) mgr = fst (onUpdate eng page deltaTime mgr)"
| "managerStep eng page (Arrives k a) mgr =
     (case models mgr of
        [] \<Rightarrow> mgr
      | model # rest \<Rightarrow> mgr\<lparr>models := deliver eng k a model # rest\<rparr>)"

fun managerRun :: "Engine \<Rightarrow> Page \<Rightarrow> managerEvent list \<Rightarrow> LAppLive2DManager \<Rightarrow> LAppLive2DManager" where
  "managerRun eng page [] mgr = mgr"
| "managerRun eng page (e # es) mgr = managerRun eng page es (managerStep eng page e mgr)"


section \<open>Notions used in the statements\<close>

fun isTextureOp :: "pendingOp \<Rightarrow> bool" where
  "isTextureOp (LoadTextureImage _ _ _) = True"
| "isTextureOp _ = False"

fun isSettingOp :: "pendingOp \<Rightarrow> bool" where
  "isSettingOp (FetchSetting _) = True"
| "isSettingOp _ = False"

text \<open>
  A model that has no texture to wait for: it is not complete, no texture image
  and no setting is under way, and the setting it has, if any, names no texture.
\<close>

definition textureless :: "LAppModel \<Rightarrow> bool" where
  "textureless m \<longleftrightarrow>
     state m \<noteq> CompleteSetup \<and>
     (\<forall>op \<in> set (pending m). \<not> isTextureOp op \<and> \<not> isSettingOp op) \<and>
     (\<forall>s. modelSetting m = Some s \<longrightarrow> textureFileNames s = [])"


text \<open>
  The keys of the cache and the keys of the first decodes under way: each without
  repetition, and no key in both.
\<close>

definition keysApart :: "LAppTextureManager \<Rightarrow> bool" where
  "keysApart w \<longleftrightarrow>
     distinct (map textureKey (textures w)) \<and> distinct (freshKeys (decoding w)) \<and>
     set (freshKeys (decoding w)) \<inter> set (map textureKey (textures w)) = {}"

fun isSubResourceOp :: "pendingOp \<Rightarrow> bool" where
  "isSubResourceOp (FetchExpression _ _ _) = True"
| "isSubResourceOp (FetchPhysics _) = True"
| "isSubResourceOp (FetchPose _) = True"
| "isSubResourceOp (FetchUserData _) = True"
| "isSubResourceOp _ = False"

text \<open>
  A model for which the engine has built no model, while at most expressions,
  physics, pose and user data are under way.
\<close>

definition unloaded :: "LAppModel \<Rightarrow> bool" where
  "unloaded m \<longleftrightarrow>
     \<not> modelLoaded m \<and> state m \<noteq> CompleteSetup \<and>
     (\<forall>op \<in> set (pending m). isSubResourceOp op)"

fun isExpressionOp :: "nat \<Rightarrow> pendingOp \<Rightarrow> bool" where
  "isExpressionOp count (FetchExpression _ _ c) = (c = count)"
| "isExpressionOp count _ = False"

fun isMotionOp :: "pendingOp \<Rightarrow> bool" where
  "isMotionOp (FetchMotion _ _) = True"
| "isMotionOp _ = False"

text \<open>A fetch that resolved, with whatever response.\<close>

fun resolved :: "arrival \<Rightarrow> bool" where
  "resolved (Response _ _) = True"
| "resolved _ = False"

text \<open>A fetch that resolved with a buffer of which the engine makes a motion.\<close>

fun usable :: "Engine \<Rightarrow> arrival \<Rightarrow> bool" where
  "usable eng (Response ok body) = motionLoads eng (bodyOrEmpty ok body)"
| "usable eng _ = False"

text \<open>
  The expression stage and the motion stage while they wait: all that is under
  way are fetches of the stage, and the counters match their number.
\<close>

definition expressionsUnderWay :: "ModelSetting \<Rightarrow> LAppModel \<Rightarrow> bool" where
  "expressionsUnderWay s m \<longleftrightarrow>
     state m = WaitLoadExpression \<and> modelSetting m = Some s \<and> pending m \<noteq> [] \<and>
     (\<forall>op \<in> set (pending m). isExpressionOp (expressionCount m + length (pending m)) op)"

definition motionsUnderWay :: "ModelSetting \<Rightarrow> LAppModel \<Rightarrow> bool" where
  "motionsUnderWay s m \<longleftrightarrow>
     state m = WaitLoadMotion \<and> modelSetting m = Some s \<and> pending m \<noteq> [] \<and>
     (\<forall>op \<in> set (pending m). isMotionOp op) \<and>
     motionCount m + int (length (pending m)) = allMotionCount m"



section \<open>Inputs used in the evaluations below\<close>

text \<open>
  A 44-byte buffer: a RIFF/WAVE header with a 16-byte \<open>fmt\<close> chunk (PCM, one
  channel, 8000 Hz, 16 bits), followed by one chunk \<open>LIST\<close> whose size field holds
  the bytes F8 FF FF FF.  It has no \<open>data\<close> chunk.
\<close>

abbreviation listChunkWav :: "byte list" where
  "listChunkWav \<equiv>
     [82, 73, 70, 70, 36, 0, 0, 0, 87, 65, 86, 69,
      102, 109, 116, 32, 16, 0, 0, 0, 1, 0, 1, 0, 64, 31, 0, 0, 128, 62, 0, 0, 2, 0, 16, 0,
      76, 73, 83, 84, 248, 255, 255, 255]"




text \<open>A loaded clip: one channel, two samples of amplitude 1/2, 8000 Hz, not yet played.\<close>

abbreviation twoSampleClip :: LAppWavFileHandler where
  "twoSampleClip \<equiv>
     \<lparr>pcmData = Some [Some [1 / 2, 1 / 2]], userTimeSeconds = 0, lastRms = Fin 0,
      sampleOffset = 0,
      wavFileInfo = \<lparr>numberOfChannels = 1, bitsPerSample = 16, samplingRate = 8000,
                     samplesPerChannel = Fin 2\<rparr>\<rparr>"

text \<open>
  An engine that accepts every buffer but the empty one, with a head above a
  body as hit areas; a projection; a page with a canvas that is higher than wide; a
  model whose setting has arrived and names the two hit areas; and a manager that
  holds this model and whose drag was captured at the device point (200, 200).
\<close>

abbreviation sampleEngine :: Engine where
  "sampleEngine \<equiv>
     \<lparr>parseSetting = (\<lambda>b. None), mocLoads = (\<lambda>b. b \<noteq> []), motionLoads = (\<lambda>b. b \<noteq> []),
      isHit = (\<lambda>drawId x y.
                 drawId = ''HitAreaHead'' \<and> 0 \<le> x \<and> x \<le> 1 \<and> 0 \<le> y \<and> y \<le> 1 \<or>
                 drawId = ''HitAreaBody'' \<and> - 1 \<le> x \<and> x \<le> 1 \<and> - 1 \<le> y \<and> y < 0),
      frameBeforeLipSync = (\<lambda>dt d p. p(''ParamAngleX'' := fst d * 30)),
      frameLipSync = (\<lambda>v ids p. p),
      frameAfterLipSync = (\<lambda>dt p. p)\<rparr>"

abbreviation halfProjection :: Projection where
  "halfProjection \<equiv>
     \<lparr>deviceToScreenX = (\<lambda>x. x / 100 - 1), deviceToScreenY = (\<lambda>y. 1 - y / 100),
      viewInvertX = (\<lambda>x. x / 2), viewInvertY = (\<lambda>y. y / 2)\<rparr>"

abbreviation samplePage :: Page where
  "samplePage \<equiv>
     \<lparr>offsetLeft = 10, offsetTop = 20, devicePixelRatio = 2,
      canvasWidth = 200, canvasHeight = 300, modelCanvasWidth = 2\<rparr>"

abbreviation tappableModel :: LAppModel where
  "tappableModel \<equiv>
     newLAppModel\<lparr>modelSetting := Some
       \<lparr>modelFileName = ''Tap.moc3'', expressions = [], physicsFileName = [], poseFileName = [],
        userDataFile = [], eyeBlinkParameterIds = [], lipSyncParameterIds = [],
        motionGroups = [], textureFileNames = [''texture_00.png''],
        hitAreas = [(''Head'', ''HitAreaHead''), (''Body'', ''HitAreaBody'')]\<rparr>\<rparr>"

abbreviation capturedManager :: LAppLive2DManager where
  "capturedManager \<equiv>
     \<lparr>textureManager = newLAppTextureManager, projection = halfProjection,
      models = [tappableModel], sceneIndex = 0,
      touchManager = \<lparr>lastX = 200, lastY = 200\<rparr>, captured = True\<rparr>"

text \<open>A setting with a model file and nothing else: no texture, no motion, no expression.\<close>

abbreviation bareSetting :: ModelSetting where
  "bareSetting \<equiv>
     \<lparr>modelFileName = ''Bare.moc3'', expressions = [], physicsFileName = [], poseFileName = [],
      userDataFile = [], eyeBlinkParameterIds = [], lipSyncParameterIds = [],
      motionGroups = [], textureFileNames = [], hitAreas = []\<rparr>"

text \<open>One texture asked for twice, the second time after the first decode has ended.\<close>

abbreviation twoAcquires :: "textureEvent list" where
  "twoAcquires \<equiv>
     [Acquire ''Haru/texture_00.png'' True 1, Loaded 0 2048 2048,
      Acquire ''Haru/texture_00.png'' True 2, Loaded 0 2048 2048]"

text \<open>The bare setting with one expression, and with two.\<close>

abbreviation oneExpressionSetting :: ModelSetting where
  "oneExpressionSetting \<equiv> bareSetting\<lparr>expressions := [(''smile'', ''smile.exp3.json'')]\<rparr>"

text \<open>
  A setting with two expressions, one motion group of two motions and one
  texture, and a model that has this setting and a loaded model file.
\<close>

abbreviation fanOutSetting :: ModelSetting where
  "fanOutSetting \<equiv>
     bareSetting\<lparr>expressions := [(''smile'', ''smile.exp3.json''), (''angry'', ''angry.exp3.json'')],
                 motionGroups := [(''Idle'', [''idle_0.motion3.json'', ''idle_1.motion3.json''])],
                 textureFileNames := [''texture_00.png'']\<rparr>"

abbreviation fanOutModel :: LAppModel where
  "fanOutModel \<equiv> newLAppModel\<lparr>modelSetting := Some fanOutSetting, modelLoaded := True\<rparr>"

text \<open>The same model while it waits for its texture.\<close>

abbreviation waitingModel :: LAppModel where
  "waitingModel \<equiv> fanOutModel\<lparr>state := WaitLoadTexture\<rparr>"


section \<open>Properties of the audio decoder\<close>

lemmas reader_defs = getCheckSignature_def get8_def get16LittleEndian_def
  get32LittleEndian_def getUint8_def js_or_def js_shl_def toInt32_def










section \<open>Rounding to single precision\<close>














section \<open>The samples of a parsed clip\<close>



































text \<open>
  C5 at a tick that does not advance the offset.  On a loaded clip of two
  samples, played from the start, a tick of 0 seconds leaves the target offset at
  the previous offset: the sum of squares 0 is divided by 0 and the envelope is
  NaN, with the result \<open>true\<close>.
\<close>

theorem update_empty_window_NaN:
  "LAppWavFileHandler_update 0 twoSampleClip = Inr (True, twoSampleClip\<lparr>lastRms := NaN\<rparr>)
   \<and> getRms (twoSampleClip\<lparr>lastRms := NaN\<rparr>) = NaN"
  by (simp add: LAppWavFileHandler_update_def getRms_def js_ge_def js_div_def Let_def)

lemma listChunkWav_parseFmt:
  "parseFmt \<lparr>fileByte = listChunkWav, fileSize = 44, readOffset = 0\<rparr> h =
     Inr (\<lparr>fileByte = listChunkWav, fileSize = 44, readOffset = 36\<rparr>,
          h\<lparr>wavFileInfo := (wavFileInfo h)
              \<lparr>numberOfChannels := 1, samplingRate := 8000, bitsPerSample := 16\<rparr>\<rparr>)"
  by (simp add: parseFmt_def reader_defs Let_def)

lemma listChunkWav_signature:
  "getCheckSignature ''data'' \<lparr>fileByte = listChunkWav, fileSize = 44, readOffset = 36\<rparr>
     = Some (False, \<lparr>fileByte = listChunkWav, fileSize = 44, readOffset = 40\<rparr>)"
  by (simp add: reader_defs)

lemma listChunkWav_size:
  "get32LittleEndian \<lparr>fileByte = listChunkWav, fileSize = 44, readOffset = 40\<rparr>
     = Some (- 8, \<lparr>fileByte = listChunkWav, fileSize = 44, readOffset = 44\<rparr>)"
  by (simp add: reader_defs)

text \<open>
  The scan comes back to offset 36 after every round, so no call that starts
  there returns.
\<close>

lemma listChunkWav_scan_returns_not:
  assumes "findDataChunk r = Some y"
  shows "r \<noteq> \<lparr>fileByte = listChunkWav, fileSize = 44, readOffset = 36\<rparr>"
  by (rule findDataChunk.raw_induct
        [where P = "\<lambda>r y. r \<noteq> \<lparr>fileByte = listChunkWav, fileSize = 44, readOffset = 36\<rparr>",
         OF _ assms])
     (auto simp: listChunkWav_signature listChunkWav_size, blast)

lemma listChunkWav_scan:
  "findDataChunk \<lparr>fileByte = listChunkWav, fileSize = 44, readOffset = 36\<rparr> = None"
  using listChunkWav_scan_returns_not
  by (cases "findDataChunk \<lparr>fileByte = listChunkWav, fileSize = 44, readOffset = 36\<rparr>") auto

text \<open>
  C6 on a buffer whose header parses and which has no \<open>data\<close> chunk: the size
  field of its \<open>LIST\<close> chunk reads as \<open>-8\<close>, the scan steps back onto the chunk
  it has just left, and \<open>loadWavFile\<close> never returns.
\<close>

theorem loadWavFile_listChunkWav_never_returns:
  "loadWavFile (Some listChunkWav) h = None"
  by (simp add: loadWavFile_def listChunkWav_parseFmt listChunkWav_scan Let_def)


section \<open>Properties of the manager\<close>

lemma models_changeScene:
  "models (changeScene index mgr) =
     [loadAssets (ResourcesPath @ modelDirAt index @ ''/'') (modelDirAt index @ ''.model3.json'')
        newLAppModel]"
  by (simp add: changeScene_def releaseAllModel_def Let_def)

lemma models_onDrag: "length (models (onDrag x y mgr)) = length (models mgr)"
  by (simp add: onDrag_def split: list.splits)

lemma managerStep_models:
  assumes "length (models mgr) \<le> 1"
  shows "length (models (managerStep eng page e mgr)) \<le> 1"
proof (cases e)
  case (ChangeScene i) then show ?thesis by (simp add: models_changeScene)
next
  case NextScene then show ?thesis by (simp add: nextScene_def models_changeScene)
next
  case ReleaseManager then show ?thesis by (simp add: releaseManager_def releaseAllModel_def)
next
  case (PointBegan x y) then show ?thesis using assms by (simp add: onPointBegan_def Let_def)
next
  case (PointMoved x y) then show ?thesis using assms
    by (simp add: onPointMoved_def Let_def models_onDrag)
next
  case (PointEnded x y) then show ?thesis using assms
    by (simp add: onPointEnded_def Let_def models_onDrag)
next
  case (Frame dt) then show ?thesis using assms
    by (auto simp add: onUpdate_def Let_def split: list.splits sum.splits)
next
  case (Arrives k a) then show ?thesis using assms by (auto split: list.splits)
qed

lemma managerRun_models:
  "length (models mgr) \<le> 1 \<Longrightarrow> length (models (managerRun eng page es mgr)) \<le> 1"
proof (induction es arbitrary: mgr)
  case Nil
  then show ?case by simp
next
  case (Cons e es)
  from Cons.prems have "length (models (managerStep eng page e mgr)) \<le> 1"
    by (rule managerStep_models)
  then have "length (models (managerRun eng page es (managerStep eng page e mgr))) \<le> 1"
    by (rule Cons.IH)
  then show ?case by simp
qed

text \<open>
  C10.  After \<open>changeScene\<close> the manager holds exactly one model, the new one on
  which \<open>loadAssets\<close> has been called for the directory and the setting file of
  that scene.  Whatever happens to a manager after its construction, it never holds
  more than one model.
\<close>

theorem changeScene_single_model:
  "models (changeScene index mgr) =
     [loadAssets (ResourcesPath @ modelDirAt index @ ''/'') (modelDirAt index @ ''.model3.json'')
        newLAppModel]
   \<and> length (models (changeScene index mgr)) = 1
   \<and> length (models (managerRun eng page es (newLAppLive2DManager pr))) \<le> 1"
  using managerRun_models [of "newLAppLive2DManager pr" eng page es]
  by (simp add: models_changeScene newLAppLive2DManager_def)

text \<open>
  C9.  While the state of a model is not \<open>CompleteSetup\<close>, \<open>update\<close> returns at
  once and leaves the model as it is, parameters included, and \<open>draw\<close> sends
  nothing to the renderer.  A frame of the manager that holds the model therefore
  draws nothing and leaves the parameters of every model as they are; all it may
  do to the model is to set the width of its model matrix, when the model file is
  loaded and wider than 1 and the canvas is higher than wide.
\<close>

theorem tick_before_CompleteSetup:
  "state m \<noteq> CompleteSetup \<Longrightarrow>
     LAppModel_update eng deltaTimeSeconds m = Inr m \<and> draw m = [] \<and>
     onUpdate eng page deltaTimeSeconds (mgr\<lparr>models := m # rest\<rparr>) =
       (mgr\<lparr>models :=
              (if modelLoaded m \<and> modelCanvasWidth page > 1 \<and> canvasWidth page < canvasHeight page
               then m\<lparr>modelMatrixCalls := modelMatrixCalls m @ [SetWidth 2]\<rparr> else m) # rest\<rparr>,
        []) \<and>
     map modelParameters (models (fst (onUpdate eng page deltaTimeSeconds (mgr\<lparr>models := m # rest\<rparr>))))
       = map modelParameters (m # rest)"
  by (simp add: LAppModel_update_def draw_def onUpdate_def Let_def)

text \<open>
  A model whose model file is loaded and which waits for its texture: \<open>draw\<close>
  passes the check of \<open>_model\<close> and stops at the state; the frame sets the width
  of the model matrix and draws nothing.
\<close>

theorem tick_before_CompleteSetup_witness:
  "state waitingModel \<noteq> CompleteSetup \<and> modelLoaded waitingModel \<and>
   LAppModel_update sampleEngine (1 / 60) waitingModel = Inr waitingModel \<and>
   draw waitingModel = [] \<and>
   onUpdate sampleEngine samplePage (1 / 60)
       ((newLAppLive2DManager halfProjection)\<lparr>models := [waitingModel]\<rparr>)
     = ((newLAppLive2DManager halfProjection)
          \<lparr>models := [waitingModel\<lparr>modelMatrixCalls := [SetWidth 2]\<rparr>]\<rparr>, []) \<and>
   modelParameters (waitingModel\<lparr>modelMatrixCalls := [SetWidth 2]\<rparr>) = modelParameters waitingModel"
  using tick_before_CompleteSetup [where m = waitingModel and eng = sampleEngine
          and page = samplePage and deltaTimeSeconds = "1 / 60"
          and mgr = "newLAppLive2DManager halfProjection" and rest = "[]"]
  by (simp add: newLAppModel_def)

lemma hitTest_dragging: "hitTest eng (m\<lparr>dragging := d\<rparr>) n x y = hitTest eng m n x y"
  by (simp add: hitTest_def)

text \<open>
  C8.  A pointer-move on a captured manager gives the model the projection of the
  anchor as it was before the move, and leaves the new position as the anchor.  A
  pointer-up clears the capture, sets the drag of the model to (0, 0) and runs the
  hit tests at the projection of the release point: the head first, then the body
  when the head is not hit; a hit test that throws ends the call with the capture
  cleared and the drag at (0, 0).
\<close>

theorem pointer_move_and_up:
  "(captured mgr \<and> models mgr = model # rest \<longrightarrow>
      models (onPointMoved page pageX pageY mgr) =
        model\<lparr>dragging := (transformViewX mgr (getX (touchManager mgr)),
                            transformViewY mgr (getY (touchManager mgr)))\<rparr> # rest \<and>
      touchManager (onPointMoved page pageX pageY mgr) =
        touchesMoved ((pageX - offsetLeft page) * devicePixelRatio page)
          ((pageY - offsetTop page) * devicePixelRatio page) (touchManager mgr) \<and>
      getX (touchManager (onPointMoved page pageX pageY mgr)) =
        (pageX - offsetLeft page) * devicePixelRatio page \<and>
      getY (touchManager (onPointMoved page pageX pageY mgr)) =
        (pageY - offsetTop page) * devicePixelRatio page \<and>
      captured (onPointMoved page pageX pageY mgr)) \<and>
   (models mgr = model # rest \<longrightarrow>
      \<not> captured (fst (onPointEnded eng page pageX pageY mgr)) \<and>
      models (fst (onPointEnded eng page pageX pageY mgr)) = model\<lparr>dragging := (0, 0)\<rparr> # rest \<and>
      snd (onPointEnded eng page pageX pageY mgr) =
        (let x = transformViewX mgr ((pageX - offsetLeft page) * devicePixelRatio page);
             y = transformViewY mgr ((pageY - offsetTop page) * devicePixelRatio page)
         in case hitTest eng model HitAreaNameHead x y of
              None \<Rightarrow> None
            | Some True \<Rightarrow> Some SetRandomExpression
            | Some False \<Rightarrow>
                (case hitTest eng model HitAreaNameBody x y of
                   None \<Rightarrow> None
                 | Some True \<Rightarrow> Some (StartRandomMotion MotionGroupTapBody PriorityNormal)
                 | Some False \<Rightarrow> Some NoReaction)))"
  by (auto simp add: onPointMoved_def onPointEnded_def onDrag_def onTap_def Let_def
        touchesMoved_def getX_def getY_def transformViewX_def transformViewY_def hitTest_dragging
        split: option.splits bool.splits)

text \<open>
  A manager whose drag was captured at the device point (200, 200), with a model
  that has a head and a body as hit areas.  A move to the page point (60, 70) drags
  by the projection of (200, 200) and leaves the anchor at (100, 100).  A release
  at the page point (60, 70) is projected to (0, 0), inside the head; a release at
  (110, 120) is projected to (1/2, -1/2), outside the head and inside the body.
\<close>

theorem pointer_move_and_up_witness:
  "captured capturedManager \<and> models capturedManager = [tappableModel] \<and>
   models (onPointMoved samplePage 60 70 capturedManager)
     = [tappableModel\<lparr>dragging := (1 / 2, - (1 / 2))\<rparr>] \<and>
   touchManager (onPointMoved samplePage 60 70 capturedManager) = \<lparr>lastX = 100, lastY = 100\<rparr> \<and>
   getX (touchManager (onPointMoved samplePage 60 70 capturedManager)) = 100 \<and>
   getY (touchManager (onPointMoved samplePage 60 70 capturedManager)) = 100 \<and>
   \<not> captured (fst (onPointEnded sampleEngine samplePage 60 70 capturedManager)) \<and>
   models (fst (onPointEnded sampleEngine samplePage 60 70 capturedManager))
     = [tappableModel\<lparr>dragging := (0, 0)\<rparr>] \<and>
   hitTest sampleEngine tappableModel HitAreaNameHead 0 0 = Some True \<and>
   snd (onPointEnded sampleEngine samplePage 60 70 capturedManager) = Some SetRandomExpression \<and>
   hitTest sampleEngine tappableModel HitAreaNameHead (1 / 2) (- (1 / 2)) = Some False \<and>
   hitTest sampleEngine tappableModel HitAreaNameBody (1 / 2) (- (1 / 2)) = Some True \<and>
   snd (onPointEnded sampleEngine samplePage 110 120 capturedManager)
     = Some (StartRandomMotion MotionGroupTapBody PriorityNormal)"
  using pointer_move_and_up [where mgr = capturedManager and model = tappableModel and rest = "[]"
          and page = samplePage and pageX = 60 and pageY = 70 and eng = sampleEngine]
        pointer_move_and_up [where mgr = capturedManager and model = tappableModel and rest = "[]"
          and page = samplePage and pageX = 110 and pageY = 120 and eng = sampleEngine]
  by (simp add: transformViewX_def transformViewY_def getX_def getY_def touchesMoved_def
        Let_def hitTest_def newLAppModel_def HitAreaNameHead_def HitAreaNameBody_def)


section \<open>Properties of the texture manager\<close>

lemma find_enumerate_None:
  "find (\<lambda>(i, t). P t) (enumerate n xs) = None \<longleftrightarrow> (\<forall>t \<in> set xs. \<not> P t)"
  by (induction xs arbitrary: n) auto

lemma find_enumerate_Some:
  "find (\<lambda>(i, t). P t) (enumerate n xs) = Some (i, t) \<Longrightarrow>
     n \<le> i \<and> i - n < length xs \<and> xs ! (i - n) = t \<and> P t"
proof (induction xs arbitrary: n)
  case Nil
  then show ?case by simp
next
  case (Cons x xs)
  show ?case
  proof (cases "P x")
    case True
    with Cons.prems show ?thesis by simp
  next
    case False
    with Cons.prems have "find (\<lambda>(i, t). P t) (enumerate (Suc n) xs) = Some (i, t)" by simp
    from Cons.IH [OF this] show ?thesis by (auto simp: nth_Cons')
  qed
qed

lemma freshKeys_append: "freshKeys (xs @ ys) = freshKeys xs @ freshKeys ys"
  by (induction xs rule: freshKeys.induct) simp_all

lemma map_textureKey_img:
  "i < length xs \<Longrightarrow> map textureKey (xs[i := (xs ! i)\<lparr>img := n\<rparr>]) = map textureKey xs"
  by (simp add: map_update textureKey_def list_update_same_conv)

lemma create_keysApart:
  assumes "keysApart w" and "(fl, p) \<notin> set (freshKeys (decoding w))"
  shows "keysApart (createTextureFromPngFile fl p cb w)"
proof (cases "find (\<lambda>(ite, t). fileName t = fl \<and> usePremultply t = p) (enumerate 0 (textures w))")
  case None
  then have "(fl, p) \<notin> set (map textureKey (textures w))"
    by (auto simp: find_enumerate_None textureKey_def)
  with assms None show ?thesis
    by (auto simp: createTextureFromPngFile_def keysApart_def freshKeys_append)
next
  case (Some a)
  obtain i t where a: "a = (i, t)" by (cases a)
  from find_enumerate_Some [OF Some [unfolded a]]
  have "i < length (textures w)" "textures w ! i = t" by simp_all
  then have "map textureKey ((textures w)[i := t\<lparr>img := images w\<rparr>]) = map textureKey (textures w)"
    using map_textureKey_img [of i "textures w" "images w"] by simp
  with assms Some a show ?thesis
    by (simp add: createTextureFromPngFile_def keysApart_def freshKeys_append)
qed

lemma loaded_keysApart:
  assumes "keysApart w"
  shows "keysApart (imageLoaded k w0 h0 w)"
proof (cases "k < length (decoding w)")
  case False
  with assms show ?thesis by (simp add: imageLoaded_def)
next
  case True
  then have split: "decoding w = take k (decoding w) @ decoding w ! k # drop (Suc k) (decoding w)"
    by (rule id_take_nth_drop)
  let ?rest = "take k (decoding w) @ drop (Suc k) (decoding w)"
  show ?thesis
  proof (cases "decoding w ! k")
    case (Registered i cb)
    have "freshKeys (decoding w) = freshKeys ?rest"
      by (subst split) (simp add: freshKeys_append Registered)
    with assms True Registered show ?thesis
      by (simp add: imageLoaded_def keysApart_def Let_def)
  next
    case (Fresh fl p cb im)
    have fk: "freshKeys (decoding w) =
                freshKeys (take k (decoding w)) @ (fl, p) # freshKeys (drop (Suc k) (decoding w))"
      by (subst split) (simp add: freshKeys_append Fresh)
    have fr: "freshKeys ?rest = freshKeys (take k (decoding w)) @ freshKeys (drop (Suc k) (decoding w))"
      by (simp add: freshKeys_append)
    from assms have d: "distinct (freshKeys (decoding w))"
      and t: "distinct (map textureKey (textures w))"
      and x: "set (freshKeys (decoding w)) \<inter> set (map textureKey (textures w)) = {}"
      by (simp_all add: keysApart_def)
    from d have "(fl, p) \<notin> set (freshKeys ?rest)" and "distinct (freshKeys ?rest)"
      unfolding fk fr by auto
    moreover from x have "(fl, p) \<notin> set (map textureKey (textures w))"
      unfolding fk by auto
    moreover from x have "set (freshKeys ?rest) \<inter> set (map textureKey (textures w)) = {}"
      unfolding fk fr by auto
    ultimately show ?thesis
      using True Fresh t
      by (auto simp add: imageLoaded_def keysApart_def Let_def textureKey_def)
  qed
qed

lemma unhurried_keysApart:
  "keysApart w \<Longrightarrow> unhurried es w \<Longrightarrow> keysApart (textureRun es w)"
proof (induction es arbitrary: w)
  case Nil
  then show ?case by simp
next
  case (Cons e es)
  then show ?case
    by (cases e) (auto intro: create_keysApart loaded_keysApart)
qed

text \<open>
  C7, as the code has it.  When no texture is asked for while the first decode of
  its key is still under way, the cache never holds two records of one key.  An
  acquire for a key that is registered inserts nothing: it starts one more decode,
  leaves the keys and the textures of the records as they are, and when that decode
  ends the callback is given the registered record of that key.
\<close>

theorem texture_cache_keys:
  "(unhurried es newLAppTextureManager \<longrightarrow>
      distinct (map textureKey (textures (textureRun es newLAppTextureManager)))) \<and>
   ((fl, p) \<in> set (map textureKey (textures w)) \<longrightarrow>
      (let w1 = createTextureFromPngFile fl p cb w;
           w2 = imageLoaded (length (decoding w)) w0 h0 w1
       in map textureKey (textures w1) = map textureKey (textures w) \<and>
          map texId (textures w1) = map texId (textures w) \<and>
          length (decoding w1) = Suc (length (decoding w)) \<and>
          textures w2 = textures w1 \<and>
          (\<exists>r \<in> set (textures w1). textureKey r = (fl, p) \<and>
              delivered w2 = delivered w @ [(cb, Some r)])))"
proof
  have "keysApart newLAppTextureManager"
    by (simp add: keysApart_def newLAppTextureManager_def)
  then show "unhurried es newLAppTextureManager \<longrightarrow>
      distinct (map textureKey (textures (textureRun es newLAppTextureManager)))"
    using unhurried_keysApart [of newLAppTextureManager es] by (simp add: keysApart_def)
next
  show "(fl, p) \<in> set (map textureKey (textures w)) \<longrightarrow>
      (let w1 = createTextureFromPngFile fl p cb w;
           w2 = imageLoaded (length (decoding w)) w0 h0 w1
       in map textureKey (textures w1) = map textureKey (textures w) \<and>
          map texId (textures w1) = map texId (textures w) \<and>
          length (decoding w1) = Suc (length (decoding w)) \<and>
          textures w2 = textures w1 \<and>
          (\<exists>r \<in> set (textures w1). textureKey r = (fl, p) \<and>
              delivered w2 = delivered w @ [(cb, Some r)]))"
  proof
    assume "(fl, p) \<in> set (map textureKey (textures w))"
    then have "find (\<lambda>(ite, t). fileName t = fl \<and> usePremultply t = p) (enumerate 0 (textures w)) \<noteq> None"
      by (auto simp: find_enumerate_None textureKey_def)
    then obtain i t where f: "find (\<lambda>(ite, t). fileName t = fl \<and> usePremultply t = p)
        (enumerate 0 (textures w)) = Some (i, t)" by auto
    from find_enumerate_Some [OF f]
    have i: "i < length (textures w)" and t: "textures w ! i = t"
      and k: "fileName t = fl" "usePremultply t = p" by simp_all
    let ?ts = "(textures w)[i := t\<lparr>img := images w\<rparr>]"
    have w1: "createTextureFromPngFile fl p cb w =
        w\<lparr>textures := ?ts, decoding := decoding w @ [Registered i cb], images := images w + 1\<rparr>"
      by (simp add: createTextureFromPngFile_def f)
    have keys: "map textureKey ?ts = map textureKey (textures w)"
      using map_textureKey_img [OF i, of "images w"] t by simp
    have ids: "map texId ?ts = map texId (textures w)"
      using i t by (simp add: map_update list_update_same_conv)
    have r: "?ts ! i \<in> set ?ts" "textureKey (?ts ! i) = (fl, p)"
      using i k by (simp_all add: textureKey_def set_update_memI)
    show "let w1 = createTextureFromPngFile fl p cb w;
           w2 = imageLoaded (length (decoding w)) w0 h0 w1
       in map textureKey (textures w1) = map textureKey (textures w) \<and>
          map texId (textures w1) = map texId (textures w) \<and>
          length (decoding w1) = Suc (length (decoding w)) \<and>
          textures w2 = textures w1 \<and>
          (\<exists>r \<in> set (textures w1). textureKey r = (fl, p) \<and>
              delivered w2 = delivered w @ [(cb, Some r)])"
      unfolding Let_def w1 using keys ids r i
      by (auto simp add: imageLoaded_def Let_def)
  qed
qed

theorem texture_cache_keys_witness:
  "unhurried twoAcquires newLAppTextureManager \<and>
   distinct (map textureKey (textures (textureRun twoAcquires newLAppTextureManager))) \<and>
   map textureKey (textures (textureRun twoAcquires newLAppTextureManager)) = [(''Haru/texture_00.png'', True)] \<and>
   map fst (delivered (textureRun twoAcquires newLAppTextureManager)) = [1, 2] \<and>
   map (map_option texId \<circ> snd) (delivered (textureRun twoAcquires newLAppTextureManager)) = [Some 0, Some 0]"
  using texture_cache_keys [of twoAcquires "''Haru/texture_00.png''" True
      "textureRun (take 2 twoAcquires) newLAppTextureManager" 2 2048 2048]
  by (simp add: newLAppTextureManager_def createTextureFromPngFile_def imageLoaded_def
        textureKey_def Let_def)

text \<open>
  C7 as stated fails: two acquires of one key, the second issued while the decode
  of the first is under way, both insert a record when their decodes end.
\<close>

theorem hurried_acquires_insert_twice:
  "map textureKey (textures (textureRun
       [Acquire ''Haru/texture_00.png'' True 1, Acquire ''Haru/texture_00.png'' True 2,
        Loaded 0 2048 2048, Loaded 0 2048 2048] newLAppTextureManager))
     = [(''Haru/texture_00.png'', True), (''Haru/texture_00.png'', True)]"
  by (simp add: newLAppTextureManager_def createTextureFromPngFile_def imageLoaded_def
        textureKey_def Let_def)



section \<open>Properties of the load pipeline\<close>

lemma deliver_idle: "pending m = [] \<Longrightarrow> deliver eng k a m = m"
  by (simp add: deliver_def)

lemma deliverAll_idle: "pending m = [] \<Longrightarrow> deliverAll eng es m = m"
  by (induction es arbitrary: m) (auto simp: deliver_idle)

lemma textureless_fields [simp]:
  "textureless (m\<lparr>updating := b\<rparr>) = textureless m"
  "textureless (m\<lparr>initialized := b\<rparr>) = textureless m"
  "textureless (m\<lparr>rendererCreated := b\<rparr>) = textureless m"
  "textureless (m\<lparr>motionCount := i\<rparr>) = textureless m"
  "textureless (m\<lparr>allMotionCount := i\<rparr>) = textureless m"
  "textureless (m\<lparr>logged := l\<rparr>) = textureless m"
  "textureless (m\<lparr>lipSyncIds := ids\<rparr>) = textureless m"
  "textureless (m\<lparr>eyeBlinkIds := ids\<rparr>) = textureless m"
  "textureless (m\<lparr>breath := b\<rparr>) = textureless m"
  "textureless (m\<lparr>eyeBlink := b\<rparr>) = textureless m"
  "textureless (m\<lparr>modelLoaded := b\<rparr>) = textureless m"
  "textureless (m\<lparr>motions := ms\<rparr>) = textureless m"
  "textureless (m\<lparr>expressionMotions := es\<rparr>) = textureless m"
  "textureless (m\<lparr>expressionCount := n\<rparr>) = textureless m"
  "textureless (m\<lparr>modelMatrixCalls := cs\<rparr>) = textureless m"
  by (simp_all add: textureless_def)

lemma textureless_state:
  "textureless m \<Longrightarrow> X \<noteq> CompleteSetup \<Longrightarrow> textureless (m\<lparr>state := X\<rparr>)"
  by (simp add: textureless_def)

lemma textureless_pending:
  "textureless m \<Longrightarrow> \<forall>op \<in> set ops. \<not> isTextureOp op \<and> \<not> isSettingOp op \<Longrightarrow>
   textureless (m\<lparr>pending := pending m @ ops\<rparr>)"
  by (auto simp add: textureless_def)

lemma setupTextures_textureless:
  "textureFileNames s = [] \<Longrightarrow> textureless m \<Longrightarrow> textureless (setupTextures s m)"
  by (simp add: setupTextures_def textureless_def)

lemma finishMotions_textureless:
  "textureFileNames s = [] \<Longrightarrow> textureless m \<Longrightarrow> textureless (finishMotions s m)"
  unfolding finishMotions_def
  by (intro setupTextures_textureless) (simp_all add: textureless_state)

lemma preLoadMotionGroup_ops:
  "op \<in> set (preLoadMotionGroup s g) \<Longrightarrow> \<exists>f n. op = FetchMotion f n"
  by (auto simp: preLoadMotionGroup_def)

lemma loadCubismMotion_textureless:
  assumes "textureFileNames s = []" and "textureless m"
  shows "textureless (loadCubismMotion s m)"
proof -
  have ops: "\<forall>op \<in> set (concat (map (preLoadMotionGroup s) (map fst (motionGroups s)))).
               \<not> isTextureOp op \<and> \<not> isSettingOp op"
    by (auto dest!: preLoadMotionGroup_ops)
  let ?m1 = "m\<lparr>state := WaitLoadMotion,
                allMotionCount := int (sum_list (map (getMotionCount s) (map fst (motionGroups s)))),
                motionCount := 0\<rparr>"
  have "textureless ?m1"
    using assms(2) by (simp add: textureless_def)
  then have m2: "textureless (?m1\<lparr>pending := pending ?m1
          @ concat (map (preLoadMotionGroup s) (map fst (motionGroups s)))\<rparr>)"
    using ops by (rule textureless_pending)
  show ?thesis
  proof (cases "motionGroups s = []")
    case True
    with m2 finishMotions_textureless [OF assms(1) m2] show ?thesis
      by (simp add: loadCubismMotion_def Let_def)
  next
    case False
    with m2 show ?thesis
      by (simp add: loadCubismMotion_def Let_def)
  qed
qed

lemma setupLayout_textureless:
  assumes "textureFileNames s = []" and "textureless m"
  shows "textureless (setupLayout s m)"
proof -
  have "textureless (m\<lparr>modelMatrixCalls := modelMatrixCalls m @ [SetupFromLayout],
                          state := LoadMotion\<rparr>)"
    using assms(2) by (simp add: textureless_def)
  from loadCubismMotion_textureless [OF assms(1) this] assms(2) show ?thesis
    by (simp add: setupLayout_def)
qed

lemma setupLipSyncIds_textureless:
  "textureFileNames s = [] \<Longrightarrow> textureless m \<Longrightarrow> textureless (setupLipSyncIds s m)"
  unfolding setupLipSyncIds_def
  by (intro setupLayout_textureless) (simp_all add: textureless_def)

lemma setupEyeBlinkIds_textureless:
  "textureFileNames s = [] \<Longrightarrow> textureless m \<Longrightarrow> textureless (setupEyeBlinkIds s m)"
  unfolding setupEyeBlinkIds_def
  by (intro setupLipSyncIds_textureless) (simp_all add: textureless_def)

lemma loadUserDataFile_textureless:
  assumes "textureFileNames s = []" and "textureless m"
  shows "textureless (loadUserDataFile s m)"
proof (cases "userDataFile s = []")
  case True
  have "textureless (m\<lparr>state := SetupEyeBlinkIds\<rparr>)"
    using assms(2) by (simp add: textureless_state)
  from setupEyeBlinkIds_textureless [OF assms(1) this] True show ?thesis
    by (simp add: loadUserDataFile_def)
next
  case False
  with assms(2) show ?thesis by (simp add: loadUserDataFile_def textureless_def)
qed

lemma setupBreath_textureless:
  "textureFileNames s = [] \<Longrightarrow> textureless m \<Longrightarrow> textureless (setupBreath s m)"
  unfolding setupBreath_def
  by (intro loadUserDataFile_textureless) (simp_all add: textureless_def)

lemma setupEyeBlink_textureless:
  "textureFileNames s = [] \<Longrightarrow> textureless m \<Longrightarrow> textureless (setupEyeBlink s m)"
  unfolding setupEyeBlink_def
  by (intro setupBreath_textureless) (simp_all add: textureless_def)

lemma loadCubismPose_textureless:
  assumes "textureFileNames s = []" and "textureless m"
  shows "textureless (loadCubismPose s m)"
proof (cases "poseFileName s = []")
  case True
  have "textureless (m\<lparr>state := SetupEyeBlink\<rparr>)"
    using assms(2) by (simp add: textureless_state)
  from setupEyeBlink_textureless [OF assms(1) this] True show ?thesis
    by (simp add: loadCubismPose_def)
next
  case False
  with assms(2) show ?thesis by (simp add: loadCubismPose_def textureless_def)
qed

lemma loadCubismPhysics_textureless:
  assumes "textureFileNames s = []" and "textureless m"
  shows "textureless (loadCubismPhysics s m)"
proof (cases "physicsFileName s = []")
  case True
  have "textureless (m\<lparr>state := LoadPose\<rparr>)"
    using assms(2) by (simp add: textureless_state)
  from loadCubismPose_textureless [OF assms(1) this] True show ?thesis
    by (simp add: loadCubismPhysics_def)
next
  case False
  with assms(2) show ?thesis by (simp add: loadCubismPhysics_def textureless_def)
qed

lemma loadCubismExpression_textureless:
  assumes "textureFileNames s = []" and "textureless m"
  shows "textureless (loadCubismExpression s m)"
proof (cases "expressions s = []")
  case True
  have "textureless (m\<lparr>state := LoadPhysics\<rparr>)"
    using assms(2) by (simp add: textureless_state)
  from loadCubismPhysics_textureless [OF assms(1) this] True show ?thesis
    by (simp add: loadCubismExpression_def)
next
  case False
  with assms(2) show ?thesis
    by (auto simp add: loadCubismExpression_def textureless_def)
qed

lemma handleFetch_textureless:
  assumes s: "textureFileNames s = []" and m: "textureless m"
  shows "textureless (handleFetch eng s op ok body m)"
proof (cases op)
  case (FetchSetting f)
  with m show ?thesis by (simp add: handleFetch_def)
next
  case (FetchMoc f)
  let ?m1 = "if ok then m else m\<lparr>logged := logged m @
                [LogError (''Failed to load file '' @ modelHomeDir m @ f)]\<rparr>"
  have "textureless ?m1" using m by simp
  then have "textureless (?m1\<lparr>modelLoaded := (modelLoaded ?m1 \<or> mocLoads eng (bodyOrEmpty ok body)),
                              state := LoadExpression\<rparr>)"
    by (simp add: textureless_def)
  from loadCubismExpression_textureless [OF s this] FetchMoc show ?thesis
    by (simp add: handleFetch_def Let_def)
next
  case (FetchExpression f n c)
  let ?m1 = "m\<lparr>expressionMotions := setValue n (bodyOrEmpty ok body) (expressionMotions m),
                expressionCount := expressionCount m + 1\<rparr>"
  have m1: "textureless ?m1" using m by simp
  then have "textureless (?m1\<lparr>state := LoadPhysics\<rparr>)" by (simp add: textureless_state)
  from loadCubismPhysics_textureless [OF s this] m1 FetchExpression show ?thesis
    by (simp add: handleFetch_def Let_def)
next
  case (FetchPhysics f)
  have "textureless (m\<lparr>state := LoadPose\<rparr>)" using m by (simp add: textureless_state)
  from loadCubismPose_textureless [OF s this] FetchPhysics show ?thesis
    by (simp add: handleFetch_def)
next
  case (FetchPose f)
  have "textureless (m\<lparr>state := SetupEyeBlink\<rparr>)" using m by (simp add: textureless_state)
  from setupEyeBlink_textureless [OF s this] FetchPose show ?thesis
    by (simp add: handleFetch_def)
next
  case (FetchUserData f)
  have "textureless (m\<lparr>state := SetupEyeBlinkIds\<rparr>)" using m by (simp add: textureless_state)
  from setupEyeBlinkIds_textureless [OF s this] FetchUserData show ?thesis
    by (simp add: handleFetch_def)
next
  case (FetchMotion f n)
  let ?m1 = "if motionLoads eng (bodyOrEmpty ok body)
             then m\<lparr>motions := setValue n (bodyOrEmpty ok body) (motions m),
                    motionCount := motionCount m + 1\<rparr>
             else m\<lparr>allMotionCount := allMotionCount m - 1\<rparr>"
  have m1: "textureless ?m1" using m by simp
  from finishMotions_textureless [OF s m1] m1 FetchMotion show ?thesis
    by (simp add: handleFetch_def Let_def)
next
  case (LoadTextureImage p n c)
  with m show ?thesis by (simp add: handleFetch_def)
qed

lemma handle_textureless:
  assumes "textureless m" and "\<not> isTextureOp op" and "\<not> isSettingOp op"
  shows "textureless (handle eng op a m)"
proof (cases "\<exists>ok body s. a = Response ok body \<and> modelSetting m = Some s")
  case True
  then obtain ok body s where a: "a = Response ok body" and s: "modelSetting m = Some s" by blast
  from assms(1) s have "textureFileNames s = []" by (simp add: textureless_def)
  from handleFetch_textureless [OF this assms(1)] a s assms(2,3) show ?thesis
    by (cases op) (simp_all add: handle_def)
next
  case False
  with assms show ?thesis
    by (cases op; cases a; cases "modelSetting m") (simp_all add: handle_def)
qed

lemma deliver_textureless:
  assumes "textureless m"
  shows "textureless (deliver eng k a m)"
proof (cases "k < length (pending m) \<and> fits (pending m ! k) a")
  case False
  with assms show ?thesis by (auto simp add: deliver_def)
next
  case True
  let ?m = "m\<lparr>pending := take k (pending m) @ drop (Suc k) (pending m)\<rparr>"
  have "set (take k (pending m) @ drop (Suc k) (pending m)) \<subseteq> set (pending m)"
    using set_take_subset set_drop_subset by fastforce
  with assms have "textureless ?m" by (auto simp: textureless_def)
  moreover from True assms have "\<not> isTextureOp (pending m ! k) \<and> \<not> isSettingOp (pending m ! k)"
    by (simp add: textureless_def)
  ultimately have "textureless (handle eng (pending m ! k) a ?m)"
    by (intro handle_textureless) simp_all
  with True show ?thesis by (simp add: deliver_def)
qed

lemma deliverAll_textureless:
  "textureless m \<Longrightarrow> textureless (deliverAll eng es m)"
proof (induction es arbitrary: m)
  case Nil
  then show ?case by simp
next
  case (Cons e es)
  obtain k a where e: "e = (k, a)" by (cases e)
  from Cons.prems have "textureless (deliver eng k a m)" by (rule deliver_textureless)
  then have "textureless (deliverAll eng es (deliver eng k a m))" by (rule Cons.IH)
  with e show ?case by simp
qed

lemma setupModel_textureless:
  assumes "textureFileNames s = []" "state m \<noteq> CompleteSetup" "pending m = []"
  shows "textureless (setupModel s m)"
  using assms by (simp add: setupModel_def textureless_def Let_def)

lemmas pipeline_defs = setupModel_def deliver_def handle_def handleFetch_def
  loadCubismExpression_def loadCubismPhysics_def loadCubismPose_def setupEyeBlink_def
  setupBreath_def loadUserDataFile_def setupEyeBlinkIds_def setupLipSyncIds_def setupLayout_def
  loadCubismMotion_def finishMotions_def setupTextures_def preLoadMotionGroup_def
  bodyOrEmpty_def setValue_def getMotionCount_def getMotionFiles_def

text \<open>
  C1 on the code.  A model whose setting names no texture never reaches
  \<open>CompleteSetup\<close>, whatever arrives and in whatever order: \<open>setupTextures\<close>
  starts no load, sets \<open>WaitLoadTexture\<close>, and only the callback of a texture load
  sets \<open>CompleteSetup\<close>.
\<close>

theorem no_textures_never_CompleteSetup:
  assumes "textureFileNames s = []" and "state m \<noteq> CompleteSetup" and "pending m = []"
  shows "state (deliverAll eng es (setupModel s m)) \<noteq> CompleteSetup"
  using deliverAll_textureless [OF setupModel_textureless [OF assms], of eng es]
  by (simp add: textureless_def)

text \<open>
  The setting with a model file and nothing else: once the model file has
  arrived, the model waits in \<open>WaitLoadTexture\<close> with nothing under way.
\<close>

theorem no_textures_never_CompleteSetup_witness:
  "textureFileNames bareSetting = [] \<and> state newLAppModel \<noteq> CompleteSetup \<and>
   pending newLAppModel = [] \<and>
   state (deliverAll sampleEngine [(0, Response True [1])] (setupModel bareSetting newLAppModel))
     = WaitLoadTexture \<and>
   pending (deliverAll sampleEngine [(0, Response True [1])] (setupModel bareSetting newLAppModel))
     = [] \<and>
   state (deliverAll sampleEngine [(0, Response True [1])] (setupModel bareSetting newLAppModel))
     \<noteq> CompleteSetup"
  using no_textures_never_CompleteSetup [of bareSetting newLAppModel sampleEngine
          "[(0, Response True [1])]"]
  by (simp add: newLAppModel_def pipeline_defs Let_def)


lemma unloaded_fields [simp]:
  "unloaded (m\<lparr>logged := l\<rparr>) = unloaded m"
  "unloaded (m\<lparr>lipSyncIds := ids\<rparr>) = unloaded m"
  "unloaded (m\<lparr>eyeBlinkIds := ids\<rparr>) = unloaded m"
  "unloaded (m\<lparr>breath := b\<rparr>) = unloaded m"
  "unloaded (m\<lparr>eyeBlink := b\<rparr>) = unloaded m"
  "unloaded (m\<lparr>expressionMotions := es\<rparr>) = unloaded m"
  "unloaded (m\<lparr>expressionCount := n\<rparr>) = unloaded m"
  "unloaded (m\<lparr>modelMatrixCalls := cs\<rparr>) = unloaded m"
  by (simp_all add: unloaded_def)

lemma unloaded_state:
  "unloaded m \<Longrightarrow> X \<noteq> CompleteSetup \<Longrightarrow> unloaded (m\<lparr>state := X\<rparr>)"
  by (simp add: unloaded_def)

lemma setupLayout_unloaded: "unloaded m \<Longrightarrow> unloaded (setupLayout s m)"
  by (simp add: setupLayout_def unloaded_def)

lemma setupLipSyncIds_unloaded: "unloaded m \<Longrightarrow> unloaded (setupLipSyncIds s m)"
  unfolding setupLipSyncIds_def
  by (intro setupLayout_unloaded) (simp add: unloaded_def)

lemma setupEyeBlinkIds_unloaded: "unloaded m \<Longrightarrow> unloaded (setupEyeBlinkIds s m)"
  unfolding setupEyeBlinkIds_def
  by (intro setupLipSyncIds_unloaded) (simp add: unloaded_def)

lemma loadUserDataFile_unloaded:
  assumes "unloaded m"
  shows "unloaded (loadUserDataFile s m)"
proof (cases "userDataFile s = []")
  case True
  have "unloaded (m\<lparr>state := SetupEyeBlinkIds\<rparr>)"
    using assms by (simp add: unloaded_state)
  from setupEyeBlinkIds_unloaded [OF this] True show ?thesis
    by (simp add: loadUserDataFile_def)
next
  case False
  with assms show ?thesis by (simp add: loadUserDataFile_def unloaded_def)
qed

lemma setupBreath_unloaded: "unloaded m \<Longrightarrow> unloaded (setupBreath s m)"
  unfolding setupBreath_def
  by (intro loadUserDataFile_unloaded) (simp add: unloaded_def)

lemma setupEyeBlink_unloaded: "unloaded m \<Longrightarrow> unloaded (setupEyeBlink s m)"
  unfolding setupEyeBlink_def
  by (intro setupBreath_unloaded) (simp add: unloaded_def)

lemma loadCubismPose_unloaded:
  assumes "unloaded m"
  shows "unloaded (loadCubismPose s m)"
proof (cases "poseFileName s = []")
  case True
  have "unloaded (m\<lparr>state := SetupEyeBlink\<rparr>)"
    using assms by (simp add: unloaded_state)
  from setupEyeBlink_unloaded [OF this] True show ?thesis
    by (simp add: loadCubismPose_def)
next
  case False
  with assms show ?thesis by (simp add: loadCubismPose_def unloaded_def)
qed

lemma loadCubismPhysics_unloaded:
  assumes "unloaded m"
  shows "unloaded (loadCubismPhysics s m)"
proof (cases "physicsFileName s = []")
  case True
  have "unloaded (m\<lparr>state := LoadPose\<rparr>)"
    using assms by (simp add: unloaded_state)
  from loadCubismPose_unloaded [OF this] True show ?thesis
    by (simp add: loadCubismPhysics_def)
next
  case False
  with assms show ?thesis by (simp add: loadCubismPhysics_def unloaded_def)
qed

lemma loadCubismExpression_unloaded:
  assumes "unloaded m"
  shows "unloaded (loadCubismExpression s m)"
proof (cases "expressions s = []")
  case True
  have "unloaded (m\<lparr>state := LoadPhysics\<rparr>)"
    using assms by (simp add: unloaded_state)
  from loadCubismPhysics_unloaded [OF this] True show ?thesis
    by (simp add: loadCubismExpression_def)
next
  case False
  with assms show ?thesis
    by (auto simp add: loadCubismExpression_def unloaded_def)
qed

lemma handleFetch_unloaded:
  assumes m: "unloaded m" and op: "isSubResourceOp op"
  shows "unloaded (handleFetch eng s op ok body m)"
proof (cases op)
  case (FetchExpression f n c)
  let ?m1 = "m\<lparr>expressionMotions := setValue n (bodyOrEmpty ok body) (expressionMotions m),
                expressionCount := expressionCount m + 1\<rparr>"
  have m1: "unloaded ?m1" using m by simp
  then have "unloaded (?m1\<lparr>state := LoadPhysics\<rparr>)" by (simp add: unloaded_state)
  from loadCubismPhysics_unloaded [OF this] m1 FetchExpression show ?thesis
    by (simp add: handleFetch_def Let_def)
next
  case (FetchPhysics f)
  have "unloaded (m\<lparr>state := LoadPose\<rparr>)" using m by (simp add: unloaded_state)
  from loadCubismPose_unloaded [OF this] FetchPhysics show ?thesis
    by (simp add: handleFetch_def)
next
  case (FetchPose f)
  have "unloaded (m\<lparr>state := SetupEyeBlink\<rparr>)" using m by (simp add: unloaded_state)
  from setupEyeBlink_unloaded [OF this] FetchPose show ?thesis
    by (simp add: handleFetch_def)
next
  case (FetchUserData f)
  have "unloaded (m\<lparr>state := SetupEyeBlinkIds\<rparr>)" using m by (simp add: unloaded_state)
  from setupEyeBlinkIds_unloaded [OF this] FetchUserData show ?thesis
    by (simp add: handleFetch_def)
qed (use op in simp_all)

lemma handle_unloaded:
  assumes "unloaded m" and "isSubResourceOp op"
  shows "unloaded (handle eng op a m)"
proof (cases "\<exists>ok body s. a = Response ok body \<and> modelSetting m = Some s")
  case True
  then obtain ok body s where a: "a = Response ok body" and s: "modelSetting m = Some s" by blast
  from handleFetch_unloaded [OF assms] a s assms(2) show ?thesis
    by (cases op) (simp_all add: handle_def)
next
  case False
  with assms show ?thesis
    by (cases op; cases a; cases "modelSetting m") (simp_all add: handle_def)
qed

lemma deliver_unloaded:
  assumes "unloaded m"
  shows "unloaded (deliver eng k a m)"
proof (cases "k < length (pending m) \<and> fits (pending m ! k) a")
  case False
  with assms show ?thesis by (auto simp add: deliver_def)
next
  case True
  let ?m = "m\<lparr>pending := take k (pending m) @ drop (Suc k) (pending m)\<rparr>"
  have "set (take k (pending m) @ drop (Suc k) (pending m)) \<subseteq> set (pending m)"
    using set_take_subset set_drop_subset by fastforce
  with assms have "unloaded ?m" by (auto simp: unloaded_def)
  moreover from True assms have "isSubResourceOp (pending m ! k)"
    by (simp add: unloaded_def)
  ultimately have "unloaded (handle eng (pending m ! k) a ?m)"
    by (intro handle_unloaded) simp_all
  with True show ?thesis by (simp add: deliver_def)
qed

lemma deliverAll_unloaded:
  "unloaded m \<Longrightarrow> unloaded (deliverAll eng es m)"
proof (induction es arbitrary: m)
  case Nil
  then show ?case by simp
next
  case (Cons e es)
  obtain k a where e: "e = (k, a)" by (cases e)
  from Cons.prems have "unloaded (deliver eng k a m)" by (rule deliver_unloaded)
  then have "unloaded (deliverAll eng es (deliver eng k a m))" by (rule Cons.IH)
  with e show ?case by simp
qed

lemma moc_rejected:
  assumes "modelFileName s \<noteq> []" and "pending m = []"
  shows "deliver eng 0 Rejected (setupModel s m) =
           m\<lparr>updating := True, initialized := False, modelSetting := Some s,
             pending := [], state := WaitLoadModel\<rparr>"
  using assms by (simp add: setupModel_def deliver_def handle_def Let_def)

lemma moc_not_ok:
  assumes "modelFileName s \<noteq> []" and "pending m = []"
  shows "deliver eng 0 (Response False body) (setupModel s m) =
           loadCubismExpression s
             (m\<lparr>updating := True, initialized := False, modelSetting := Some s, pending := [],
                logged := logged m @
                  [LogError (''Failed to load file '' @ modelHomeDir m @ modelFileName s)],
                modelLoaded := (modelLoaded m \<or> mocLoads eng []),
                state := LoadExpression\<rparr>)"
  using assms
  by (simp add: setupModel_def deliver_def handle_def handleFetch_def bodyOrEmpty_def Let_def)

lemma length_remove_nth:
  "k < length xs \<Longrightarrow> length (take k xs @ drop (Suc k) xs) = length xs - 1"
  by simp

lemma set_remove_nth: "set (take k xs @ drop (Suc k) xs) \<subseteq> set xs"
  using set_take_subset [of k xs] set_drop_subset [of "Suc k" xs] by auto

lemma expression_arrives:
  assumes u: "expressionsUnderWay s m" and k: "k < length (pending m)"
  shows "deliver eng k (Response ok body) m =
     (let m1 = m\<lparr>pending := take k (pending m) @ drop (Suc k) (pending m),
                 expressionMotions := setValue (case pending m ! k of FetchExpression f n c \<Rightarrow> n | _ \<Rightarrow> [])
                     (bodyOrEmpty ok body) (expressionMotions m),
                 expressionCount := expressionCount m + 1\<rparr>
      in if length (pending m) = 1 then loadCubismPhysics s (m1\<lparr>state := LoadPhysics\<rparr>) else m1)"
proof -
  from u k have "isExpressionOp (expressionCount m + length (pending m)) (pending m ! k)"
    by (simp add: expressionsUnderWay_def)
  then obtain f n where op: "pending m ! k = FetchExpression f n (expressionCount m + length (pending m))"
    by (cases "pending m ! k") auto
  from u have s: "modelSetting m = Some s" by (simp add: expressionsUnderWay_def)
  from k have "length (pending m) = 1 \<or> 1 < length (pending m)" by auto
  then show ?thesis
    using k op s by (auto simp add: deliver_def handle_def handleFetch_def Let_def)
qed

lemma expression_arrives_more:
  assumes u: "expressionsUnderWay s m" and k: "k < length (pending m)" and l: "length (pending m) \<noteq> 1"
  shows "expressionsUnderWay s (deliver eng k (Response ok body) m) \<and>
         expressionCount (deliver eng k (Response ok body) m) = expressionCount m + 1 \<and>
         length (pending (deliver eng k (Response ok body) m)) = length (pending m) - 1"
proof -
  from k l have l2: "1 < length (pending m)" by auto
  then have ne: "take k (pending m) @ drop (Suc k) (pending m) \<noteq> []"
    using length_remove_nth [OF k] by (metis length_0_conv zero_less_diff less_numeral_extra(3))
  have "\<forall>op \<in> set (take k (pending m) @ drop (Suc k) (pending m)).
           isExpressionOp (expressionCount m + length (pending m)) op"
    using u set_remove_nth [of k "pending m"] by (auto simp: expressionsUnderWay_def)
  moreover have "expressionCount m + 1 + (length (pending m) - 1) = expressionCount m + length (pending m)"
    using l2 by simp
  ultimately show ?thesis
    using u k l l2 ne unfolding expression_arrives [OF u k] Let_def
    by (simp add: expressionsUnderWay_def)
qed

lemma expressions_fan_in:
  assumes "expressionsUnderWay s m" and "arrivals eng es m" and "list_all (\<lambda>e. resolved (snd e)) es"
    and "length es = length (pending m)"
  shows "(\<forall>n < length es. state (deliverAll eng (take n es) m) = WaitLoadExpression \<and>
            expressionCount (deliverAll eng (take n es) m) = expressionCount m + n) \<and>
         (\<exists>m'. deliverAll eng es m = loadCubismPhysics s (m'\<lparr>state := LoadPhysics\<rparr>) \<and>
               expressionCount m' = expressionCount m + length es \<and> pending m' = [])"
  using assms
proof (induction es arbitrary: m)
  case Nil
  then show ?case by (simp add: expressionsUnderWay_def)
next
  case (Cons e es)
  obtain k a where e: "e = (k, a)" by (cases e)
  from Cons.prems(3) e obtain ok body where a: "a = Response ok body"
    by (cases a) simp_all
  from Cons.prems(2) e have k: "k < length (pending m)" by simp
  have st: "state m = WaitLoadExpression"
    using Cons.prems(1) by (simp add: expressionsUnderWay_def)
  show ?case
  proof (cases "length (pending m) = 1")
    case True
    with Cons.prems(4) have es: "es = []" by simp
    have "deliverAll eng (e # es) m =
            loadCubismPhysics s ((m\<lparr>pending := take k (pending m) @ drop (Suc k) (pending m),
                 expressionMotions := setValue (case pending m ! k of FetchExpression f n c \<Rightarrow> n | _ \<Rightarrow> [])
                     (bodyOrEmpty ok body) (expressionMotions m),
                 expressionCount := expressionCount m + 1\<rparr>)\<lparr>state := LoadPhysics\<rparr>)"
      using True by (simp add: es e a expression_arrives [OF Cons.prems(1) k] Let_def)
    moreover have "take k (pending m) @ drop (Suc k) (pending m) = []"
      using True k length_remove_nth [OF k] by simp
    ultimately show ?thesis
      using st es by (intro conjI exI) (auto simp: es)
  next
    case False
    let ?m1 = "deliver eng k (Response ok body) m"
    from expression_arrives_more [OF Cons.prems(1) k False]
    have u1: "expressionsUnderWay s ?m1"
      and c1: "expressionCount ?m1 = expressionCount m + 1"
      and l1: "length (pending ?m1) = length (pending m) - 1" by simp_all
    have "arrivals eng es ?m1" using Cons.prems(2) e a by simp
    moreover have "list_all (\<lambda>e. resolved (snd e)) es" using Cons.prems(3) by simp
    moreover have "length es = length (pending ?m1)" using Cons.prems(4) l1 by simp
    ultimately have IH: "(\<forall>n < length es. state (deliverAll eng (take n es) ?m1) = WaitLoadExpression \<and>
            expressionCount (deliverAll eng (take n es) ?m1) = expressionCount ?m1 + n) \<and>
         (\<exists>m'. deliverAll eng es ?m1 = loadCubismPhysics s (m'\<lparr>state := LoadPhysics\<rparr>) \<and>
               expressionCount m' = expressionCount ?m1 + length es \<and> pending m' = [])"
      using Cons.IH [OF u1] by blast
    have pre: "\<forall>n < length (e # es). state (deliverAll eng (take n (e # es)) m) = WaitLoadExpression \<and>
            expressionCount (deliverAll eng (take n (e # es)) m) = expressionCount m + n"
    proof (intro allI impI)
      fix n assume n: "n < length (e # es)"
      show "state (deliverAll eng (take n (e # es)) m) = WaitLoadExpression \<and>
            expressionCount (deliverAll eng (take n (e # es)) m) = expressionCount m + n"
      proof (cases n)
        case 0
        then show ?thesis using st by simp
      next
        case (Suc n')
        with n have "n' < length es" by simp
        with IH have "state (deliverAll eng (take n' es) ?m1) = WaitLoadExpression \<and>
            expressionCount (deliverAll eng (take n' es) ?m1) = expressionCount ?m1 + n'" by blast
        then show ?thesis using Suc e a c1 by simp
      qed
    qed
    from IH obtain m' where "deliverAll eng es ?m1 = loadCubismPhysics s (m'\<lparr>state := LoadPhysics\<rparr>)"
      and "expressionCount m' = expressionCount ?m1 + length es" and "pending m' = []" by blast
    then have "deliverAll eng (e # es) m = loadCubismPhysics s (m'\<lparr>state := LoadPhysics\<rparr>) \<and>
               expressionCount m' = expressionCount m + length (e # es) \<and> pending m' = []"
      using e a c1 by simp
    with pre show ?thesis by blast
  qed
qed


lemma motion_arrives:
  assumes u: "motionsUnderWay s m" and k: "k < length (pending m)"
  shows "deliver eng k (Response ok body) m =
     (let m0 = m\<lparr>pending := take k (pending m) @ drop (Suc k) (pending m)\<rparr>;
          m1 = (if motionLoads eng (bodyOrEmpty ok body)
                then m0\<lparr>motions := setValue (case pending m ! k of FetchMotion f n \<Rightarrow> n | _ \<Rightarrow> ([], 0))
                                   (bodyOrEmpty ok body) (motions m),
                        motionCount := motionCount m + 1\<rparr>
                else m0\<lparr>allMotionCount := allMotionCount m - 1\<rparr>)
      in if length (pending m) = 1 then finishMotions s m1 else m1)"
proof -
  from u k have "isMotionOp (pending m ! k)"
    by (simp add: motionsUnderWay_def)
  then obtain f n where op: "pending m ! k = FetchMotion f n"
    by (cases "pending m ! k") auto
  from u have s: "modelSetting m = Some s"
    and c: "motionCount m + int (length (pending m)) = allMotionCount m"
    by (simp_all add: motionsUnderWay_def)
  from k have "length (pending m) = 1 \<or> 1 < length (pending m)" by auto
  then show ?thesis
    using k op s c by (auto simp add: deliver_def handle_def handleFetch_def Let_def)
qed

lemma motion_arrives_more:
  assumes u: "motionsUnderWay s m" and k: "k < length (pending m)" and l: "length (pending m) \<noteq> 1"
  shows "motionsUnderWay s (deliver eng k (Response ok body) m) \<and>
         motionCount (deliver eng k (Response ok body) m) =
           motionCount m + (if motionLoads eng (bodyOrEmpty ok body) then 1 else 0) \<and>
         allMotionCount (deliver eng k (Response ok body) m) =
           allMotionCount m - (if motionLoads eng (bodyOrEmpty ok body) then 0 else 1) \<and>
         length (pending (deliver eng k (Response ok body) m)) = length (pending m) - 1"
proof -
  from k l have l2: "1 < length (pending m)" by auto
  then have ne: "take k (pending m) @ drop (Suc k) (pending m) \<noteq> []"
    using length_remove_nth [OF k] by (metis length_0_conv zero_less_diff less_numeral_extra(3))
  have "\<forall>op \<in> set (take k (pending m) @ drop (Suc k) (pending m)). isMotionOp op"
    using u set_remove_nth [of k "pending m"] by (auto simp: motionsUnderWay_def)
  moreover have "int (length (pending m) - 1) = int (length (pending m)) - 1"
    using l2 by simp
  ultimately show ?thesis
    using u k l l2 ne unfolding motion_arrives [OF u k] Let_def
    by (simp add: motionsUnderWay_def)
qed

lemma motions_fan_in:
  assumes "motionsUnderWay s m" and "arrivals eng es m" and "list_all (\<lambda>e. resolved (snd e)) es"
    and "length es = length (pending m)"
  shows "(\<forall>n < length es. state (deliverAll eng (take n es) m) = WaitLoadMotion) \<and>
         (\<exists>m'. deliverAll eng es m = finishMotions s m' \<and>
               motionCount m' = motionCount m + int (length (filter (\<lambda>e. usable eng (snd e)) es)) \<and>
               allMotionCount m' =
                 allMotionCount m - int (length (filter (\<lambda>e. \<not> usable eng (snd e)) es)) \<and>
               pending m' = [])"
  using assms
proof (induction es arbitrary: m)
  case Nil
  then show ?case by (simp add: motionsUnderWay_def)
next
  case (Cons e es)
  obtain k a where e: "e = (k, a)" by (cases e)
  from Cons.prems(3) e obtain ok body where a: "a = Response ok body"
    by (cases a) simp_all
  from Cons.prems(2) e have k: "k < length (pending m)" by simp
  have st: "state m = WaitLoadMotion"
    using Cons.prems(1) by (simp add: motionsUnderWay_def)
  show ?case
  proof (cases "length (pending m) = 1")
    case True
    with Cons.prems(4) have es: "es = []" by simp
    let ?m0 = "m\<lparr>pending := take k (pending m) @ drop (Suc k) (pending m)\<rparr>"
    let ?m1 = "if motionLoads eng (bodyOrEmpty ok body)
                then ?m0\<lparr>motions := setValue (case pending m ! k of FetchMotion f n \<Rightarrow> n | _ \<Rightarrow> ([], 0))
                                   (bodyOrEmpty ok body) (motions m),
                        motionCount := motionCount m + 1\<rparr>
                else ?m0\<lparr>allMotionCount := allMotionCount m - 1\<rparr>"
    have "deliverAll eng (e # es) m = finishMotions s ?m1"
      using True by (simp add: es e a motion_arrives [OF Cons.prems(1) k] Let_def)
    moreover have "take k (pending m) @ drop (Suc k) (pending m) = []"
      using True k length_remove_nth [OF k] by simp
    ultimately show ?thesis
      using st es e a by (intro conjI exI [of _ ?m1]) (auto simp: es)
  next
    case False
    let ?m1 = "deliver eng k (Response ok body) m"
    from motion_arrives_more [OF Cons.prems(1) k False]
    have u1: "motionsUnderWay s ?m1"
      and c1: "motionCount ?m1 = motionCount m + (if motionLoads eng (bodyOrEmpty ok body) then 1 else 0)"
      and d1: "allMotionCount ?m1 =
                 allMotionCount m - (if motionLoads eng (bodyOrEmpty ok body) then 0 else 1)"
      and l1: "length (pending ?m1) = length (pending m) - 1" by simp_all
    have "arrivals eng es ?m1" using Cons.prems(2) e a by simp
    moreover have "list_all (\<lambda>e. resolved (snd e)) es" using Cons.prems(3) by simp
    moreover have "length es = length (pending ?m1)" using Cons.prems(4) l1 by simp
    ultimately have IH: "(\<forall>n < length es. state (deliverAll eng (take n es) ?m1) = WaitLoadMotion) \<and>
         (\<exists>m'. deliverAll eng es ?m1 = finishMotions s m' \<and>
               motionCount m' = motionCount ?m1 + int (length (filter (\<lambda>e. usable eng (snd e)) es)) \<and>
               allMotionCount m' =
                 allMotionCount ?m1 - int (length (filter (\<lambda>e. \<not> usable eng (snd e)) es)) \<and>
               pending m' = [])"
      using Cons.IH [OF u1] by blast
    have pre: "\<forall>n < length (e # es). state (deliverAll eng (take n (e # es)) m) = WaitLoadMotion"
    proof (intro allI impI)
      fix n assume n: "n < length (e # es)"
      show "state (deliverAll eng (take n (e # es)) m) = WaitLoadMotion"
      proof (cases n)
        case 0
        then show ?thesis using st by simp
      next
        case (Suc n')
        with n have "n' < length es" by simp
        with IH have "state (deliverAll eng (take n' es) ?m1) = WaitLoadMotion" by blast
        then show ?thesis using Suc e a by simp
      qed
    qed
    from IH obtain m' where "deliverAll eng es ?m1 = finishMotions s m'"
      and "motionCount m' = motionCount ?m1 + int (length (filter (\<lambda>e. usable eng (snd e)) es))"
      and "allMotionCount m' =
                 allMotionCount ?m1 - int (length (filter (\<lambda>e. \<not> usable eng (snd e)) es))"
      and "pending m' = []" by blast
    then have "deliverAll eng (e # es) m = finishMotions s m' \<and>
               motionCount m' = motionCount m + int (length (filter (\<lambda>e. usable eng (snd e)) (e # es))) \<and>
               allMotionCount m' =
                 allMotionCount m - int (length (filter (\<lambda>e. \<not> usable eng (snd e)) (e # es))) \<and>
               pending m' = []"
      using e a c1 d1 by simp
    with pre show ?thesis by blast
  qed
qed


lemma logged_setupTextures: "logged (setupTextures s m) = logged m"
  by (simp add: setupTextures_def)

lemma logged_finishMotions: "logged (finishMotions s m) = logged m"
  by (simp add: finishMotions_def logged_setupTextures)

lemma logged_loadCubismMotion: "logged (loadCubismMotion s m) = logged m"
  by (simp add: loadCubismMotion_def Let_def logged_finishMotions)

lemma logged_setupLayout: "x \<in> set (logged m) \<Longrightarrow> x \<in> set (logged (setupLayout s m))"
  by (simp add: setupLayout_def logged_loadCubismMotion)

lemma logged_setupLipSyncIds: "x \<in> set (logged m) \<Longrightarrow> x \<in> set (logged (setupLipSyncIds s m))"
  unfolding setupLipSyncIds_def by (rule logged_setupLayout) simp

lemma logged_setupEyeBlinkIds: "x \<in> set (logged m) \<Longrightarrow> x \<in> set (logged (setupEyeBlinkIds s m))"
  unfolding setupEyeBlinkIds_def by (rule logged_setupLipSyncIds) simp

lemma logged_loadUserDataFile: "x \<in> set (logged m) \<Longrightarrow> x \<in> set (logged (loadUserDataFile s m))"
  using logged_setupEyeBlinkIds [of x "m\<lparr>state := SetupEyeBlinkIds\<rparr>" s]
  by (simp add: loadUserDataFile_def)

lemma logged_setupBreath: "x \<in> set (logged m) \<Longrightarrow> x \<in> set (logged (setupBreath s m))"
  unfolding setupBreath_def by (rule logged_loadUserDataFile) simp

lemma logged_setupEyeBlink: "x \<in> set (logged m) \<Longrightarrow> x \<in> set (logged (setupEyeBlink s m))"
  unfolding setupEyeBlink_def by (rule logged_setupBreath) simp

lemma logged_loadCubismPose: "x \<in> set (logged m) \<Longrightarrow> x \<in> set (logged (loadCubismPose s m))"
  using logged_setupEyeBlink [of x "m\<lparr>state := SetupEyeBlink\<rparr>" s]
  by (simp add: loadCubismPose_def)

lemma logged_loadCubismPhysics: "x \<in> set (logged m) \<Longrightarrow> x \<in> set (logged (loadCubismPhysics s m))"
  using logged_loadCubismPose [of x "m\<lparr>state := LoadPose\<rparr>" s]
  by (simp add: loadCubismPhysics_def)

lemma logged_loadCubismExpression:
  "x \<in> set (logged m) \<Longrightarrow> x \<in> set (logged (loadCubismExpression s m))"
  using logged_loadCubismPhysics [of x "m\<lparr>state := LoadPhysics\<rparr>" s]
  by (simp add: loadCubismExpression_def)

lemma logged_setupModel: "x \<in> set (logged m) \<Longrightarrow> x \<in> set (logged (setupModel s m))"
  by (simp add: setupModel_def Let_def)

lemma logged_handleFetch:
  assumes "x \<in> set (logged m)"
  shows "x \<in> set (logged (handleFetch eng s op ok body m))"
proof (cases op)
  case (FetchMoc f)
  let ?m1 = "if ok then m else m\<lparr>logged := logged m @
                [LogError (''Failed to load file '' @ modelHomeDir m @ f)]\<rparr>"
  have "x \<in> set (logged (?m1\<lparr>modelLoaded := (modelLoaded ?m1 \<or> mocLoads eng (bodyOrEmpty ok body)),
                              state := LoadExpression\<rparr>))"
    using assms by simp
  from logged_loadCubismExpression [OF this] FetchMoc show ?thesis
    by (simp add: handleFetch_def Let_def)
next
  case (FetchExpression f n c)
  let ?m1 = "m\<lparr>expressionMotions := setValue n (bodyOrEmpty ok body) (expressionMotions m),
                expressionCount := expressionCount m + 1\<rparr>"
  have "x \<in> set (logged (?m1\<lparr>state := LoadPhysics\<rparr>))" using assms by simp
  from logged_loadCubismPhysics [OF this] assms FetchExpression show ?thesis
    by (simp add: handleFetch_def Let_def)
next
  case (FetchPhysics f)
  have "x \<in> set (logged (m\<lparr>state := LoadPose\<rparr>))" using assms by simp
  from logged_loadCubismPose [OF this] FetchPhysics show ?thesis
    by (simp add: handleFetch_def)
next
  case (FetchPose f)
  have "x \<in> set (logged (m\<lparr>state := SetupEyeBlink\<rparr>))" using assms by simp
  from logged_setupEyeBlink [OF this] FetchPose show ?thesis
    by (simp add: handleFetch_def)
next
  case (FetchUserData f)
  have "x \<in> set (logged (m\<lparr>state := SetupEyeBlinkIds\<rparr>))" using assms by simp
  from logged_setupEyeBlinkIds [OF this] FetchUserData show ?thesis
    by (simp add: handleFetch_def)
next
  case (FetchMotion f n)
  with assms show ?thesis
    by (simp add: handleFetch_def Let_def logged_finishMotions)
qed (use assms in \<open>simp_all add: handleFetch_def\<close>)

lemma logged_handle:
  assumes "x \<in> set (logged m)"
  shows "x \<in> set (logged (handle eng op a m))"
proof (cases op)
  case (FetchSetting f)
  show ?thesis
  proof (cases "\<exists>ok body s. a = Response ok body \<and> parseSetting eng body = Some s")
    case True
    then obtain ok body s where "a = Response ok body" "parseSetting eng body = Some s" by blast
    moreover have "x \<in> set (logged (setupModel s (m\<lparr>state := LoadModel\<rparr>)))"
      using assms by (intro logged_setupModel) simp
    ultimately show ?thesis using FetchSetting by (simp add: handle_def)
  next
    case False
    with assms FetchSetting show ?thesis
      by (cases a) (auto simp add: handle_def split: option.splits)
  qed
next
  case (LoadTextureImage p n c)
  with assms show ?thesis by (cases a) (simp_all add: handle_def Let_def)
qed (use assms logged_handleFetch [OF assms] in
      \<open>auto simp add: handle_def split: arrival.splits option.splits\<close>)

lemma logged_deliver: "x \<in> set (logged m) \<Longrightarrow> x \<in> set (logged (deliver eng k a m))"
  unfolding deliver_def by (auto intro!: logged_handle)

lemma logged_deliverAll: "x \<in> set (logged m) \<Longrightarrow> x \<in> set (logged (deliverAll eng es m))"
proof (induction es arbitrary: m)
  case Nil
  then show ?case by simp
next
  case (Cons e es)
  obtain k a where e: "e = (k, a)" by (cases e)
  from Cons.prems have "x \<in> set (logged (deliver eng k a m))" by (rule logged_deliver)
  then have "x \<in> set (logged (deliverAll eng es (deliver eng k a m)))" by (rule Cons.IH)
  with e show ?case by simp
qed


text \<open>
  C2, as the code has it, for a new model and a setting that names a model file.
  When the fetch of the model file is rejected, no handler runs and the model stays
  in \<open>WaitLoadModel\<close> whatever arrives later.  When the response is not ok, the
  failure is logged and stays in the log, the engine is handed the empty buffer and
  \<open>loadCubismExpression\<close> is entered with what the engine has made of it; if the
  engine makes no model of the empty buffer, the model never reaches
  \<open>CompleteSetup\<close>.
\<close>

theorem moc_fetch_failure:
  assumes "modelFileName s \<noteq> []" and "pending m = []" and "\<not> modelLoaded m"
  shows "state (deliverAll eng es (deliver eng 0 Rejected (setupModel s m))) = WaitLoadModel \<and>
         deliver eng 0 (Response False body) (setupModel s m) =
           loadCubismExpression s
             (m\<lparr>updating := True, initialized := False, modelSetting := Some s, pending := [],
                logged := logged m @
                  [LogError (''Failed to load file '' @ modelHomeDir m @ modelFileName s)],
                modelLoaded := mocLoads eng [],
                state := LoadExpression\<rparr>) \<and>
         LogError (''Failed to load file '' @ modelHomeDir m @ modelFileName s)
           \<in> set (logged (deliverAll eng es (deliver eng 0 (Response False body) (setupModel s m)))) \<and>
         (\<not> mocLoads eng [] \<longrightarrow>
            state (deliverAll eng es (deliver eng 0 (Response False body) (setupModel s m)))
              \<noteq> CompleteSetup)"
proof (intro conjI impI)
  show "state (deliverAll eng es (deliver eng 0 Rejected (setupModel s m))) = WaitLoadModel"
    by (simp add: moc_rejected [OF assms(1,2)] deliverAll_idle)
next
  show "deliver eng 0 (Response False body) (setupModel s m) =
           loadCubismExpression s
             (m\<lparr>updating := True, initialized := False, modelSetting := Some s, pending := [],
                logged := logged m @
                  [LogError (''Failed to load file '' @ modelHomeDir m @ modelFileName s)],
                modelLoaded := mocLoads eng [],
                state := LoadExpression\<rparr>)"
    using assms(3) by (simp add: moc_not_ok [OF assms(1,2)])
next
  have "LogError (''Failed to load file '' @ modelHomeDir m @ modelFileName s)
          \<in> set (logged (deliver eng 0 (Response False body) (setupModel s m)))"
    unfolding moc_not_ok [OF assms(1,2)] by (rule logged_loadCubismExpression) simp
  then show "LogError (''Failed to load file '' @ modelHomeDir m @ modelFileName s)
           \<in> set (logged (deliverAll eng es (deliver eng 0 (Response False body) (setupModel s m))))"
    by (rule logged_deliverAll)
next
  assume "\<not> mocLoads eng []"
  with assms have "unloaded (m\<lparr>updating := True, initialized := False, modelSetting := Some s,
                pending := [],
                logged := logged m @
                  [LogError (''Failed to load file '' @ modelHomeDir m @ modelFileName s)],
                modelLoaded := (modelLoaded m \<or> mocLoads eng []),
                state := LoadExpression\<rparr>)"
    by (simp add: unloaded_def)
  then have "unloaded (deliver eng 0 (Response False body) (setupModel s m))"
    unfolding moc_not_ok [OF assms(1,2)] by (rule loadCubismExpression_unloaded)
  then have "unloaded (deliverAll eng es (deliver eng 0 (Response False body) (setupModel s m)))"
    by (rule deliverAll_unloaded)
  then show "state (deliverAll eng es (deliver eng 0 (Response False body) (setupModel s m)))
              \<noteq> CompleteSetup"
    by (simp add: unloaded_def)
qed

theorem moc_fetch_failure_witness:
  "modelFileName oneExpressionSetting \<noteq> [] \<and> pending newLAppModel = [] \<and>
   \<not> modelLoaded newLAppModel \<and> \<not> mocLoads sampleEngine [] \<and>
   state (deliverAll sampleEngine [(0, Response True [1])]
           (deliver sampleEngine 0 Rejected (setupModel oneExpressionSetting newLAppModel)))
     = WaitLoadModel \<and>
   state (deliverAll sampleEngine [(0, Response True [1])]
           (deliver sampleEngine 0 (Response False [4, 0, 4])
             (setupModel oneExpressionSetting newLAppModel)))
     = SetupLayout \<and>
   logged (deliverAll sampleEngine [(0, Response True [1])]
           (deliver sampleEngine 0 (Response False [4, 0, 4])
             (setupModel oneExpressionSetting newLAppModel)))
     = [LogError ''Failed to load file Bare.moc3'', LogError ''Failed to setupLayout().'']"
  using moc_fetch_failure [of oneExpressionSetting newLAppModel sampleEngine
          "[(0, Response True [1])]" "[4, 0, 4]"]
  by (simp add: newLAppModel_def pipeline_defs Let_def)

text \<open>
  C2 as stated fails.  After a response that is not ok, the setting with one
  expression has its expression fetch under way in \<open>WaitLoadExpression\<close>: a later
  stage is entered with the empty buffer.  After a rejected fetch nothing is logged.
\<close>

theorem moc_fetch_failure_goes_on:
  "state (deliver sampleEngine 0 (Response False [])
            (setupModel oneExpressionSetting newLAppModel)) = WaitLoadExpression \<and>
   pending (deliver sampleEngine 0 (Response False [])
            (setupModel oneExpressionSetting newLAppModel))
     = [FetchExpression ''smile.exp3.json'' ''smile'' 1] \<and>
   logged (deliver sampleEngine 0 Rejected (setupModel oneExpressionSetting newLAppModel)) = []"
  by (simp add: newLAppModel_def pipeline_defs Let_def)

lemma length_preLoadMotionGroup: "length (preLoadMotionGroup s g) = getMotionCount s g"
  by (simp add: preLoadMotionGroup_def getMotionCount_def)

lemma length_concat_preLoad:
  "length (concat (map (preLoadMotionGroup s) gs)) = sum_list (map (getMotionCount s) gs)"
  by (induction gs) (simp_all add: length_preLoadMotionGroup)

lemma loadCubismExpression_underWay:
  assumes "expressions s \<noteq> []" and "pending m = []" and "expressionCount m = 0"
    and "modelSetting m = Some s"
  shows "expressionsUnderWay s (loadCubismExpression s m) \<and>
         length (pending (loadCubismExpression s m)) = length (expressions s) \<and>
         expressionCount (loadCubismExpression s m) = 0"
  using assms by (auto simp add: loadCubismExpression_def expressionsUnderWay_def)

lemma loadCubismMotion_underWay:
  assumes "0 < sum_list (map (getMotionCount s) (map fst (motionGroups s)))" and "pending m = []"
    and "modelSetting m = Some s"
  shows "motionsUnderWay s (loadCubismMotion s m) \<and>
         length (pending (loadCubismMotion s m))
           = sum_list (map (getMotionCount s) (map fst (motionGroups s))) \<and>
         motionCount (loadCubismMotion s m) = 0 \<and>
         allMotionCount (loadCubismMotion s m)
           = int (sum_list (map (getMotionCount s) (map fst (motionGroups s))))"
proof -
  from assms(1) have ne: "motionGroups s \<noteq> []" by auto
  have len: "length (concat (map (preLoadMotionGroup s) (map fst (motionGroups s))))
          = sum_list (map (getMotionCount s) (map fst (motionGroups s)))"
    by (rule length_concat_preLoad)
  with assms(1) have "concat (map (preLoadMotionGroup s) (map fst (motionGroups s))) \<noteq> []"
    by (metis length_0_conv less_numeral_extra(3))
  moreover have "\<forall>op \<in> set (concat (map (preLoadMotionGroup s) (map fst (motionGroups s)))). isMotionOp op"
    by (auto dest!: preLoadMotionGroup_ops)
  ultimately show ?thesis
    using assms(2,3) ne len
    by (simp add: loadCubismMotion_def motionsUnderWay_def Let_def)
qed

text \<open>
  C3, as the code has it, for sub-fetches that resolve, in every order of
  arrival.  Expressions: each arrival counts as completed, whatever the response,
  the stage waits in \<open>WaitLoadExpression\<close> before the last one, and the last one
  enters \<open>loadCubismPhysics\<close>.  Motions: an arrival of which the engine makes a
  motion counts as completed, any other takes one off the total (a response that is
  not ok hands the engine the empty buffer), the stage waits in \<open>WaitLoadMotion\<close>
  before the last one, and the last one ends the stage with the completed count equal
  to the reduced total.
\<close>

theorem fan_in_any_order:
  "(expressions s \<noteq> [] \<and> pending m = [] \<and> expressionCount m = 0 \<and> modelSetting m = Some s \<and>
    arrivals eng es (loadCubismExpression s m) \<and> list_all (\<lambda>e. resolved (snd e)) es \<and>
    length es = length (expressions s) \<longrightarrow>
      (\<forall>n < length es.
          state (deliverAll eng (take n es) (loadCubismExpression s m)) = WaitLoadExpression \<and>
          expressionCount (deliverAll eng (take n es) (loadCubismExpression s m)) = n) \<and>
      (\<exists>m'. deliverAll eng es (loadCubismExpression s m)
               = loadCubismPhysics s (m'\<lparr>state := LoadPhysics\<rparr>) \<and>
             expressionCount m' = length (expressions s) \<and> pending m' = [])) \<and>
   (0 < sum_list (map (getMotionCount s) (map fst (motionGroups s))) \<and> pending m = [] \<and>
    modelSetting m = Some s \<and>
    arrivals eng es (loadCubismMotion s m) \<and> list_all (\<lambda>e. resolved (snd e)) es \<and>
    length es = sum_list (map (getMotionCount s) (map fst (motionGroups s))) \<longrightarrow>
      (\<forall>n < length es. state (deliverAll eng (take n es) (loadCubismMotion s m)) = WaitLoadMotion) \<and>
      (\<exists>m'. deliverAll eng es (loadCubismMotion s m) = finishMotions s m' \<and>
             motionCount m' = int (length (filter (\<lambda>e. usable eng (snd e)) es)) \<and>
             allMotionCount m' = int (length es) - int (length (filter (\<lambda>e. \<not> usable eng (snd e)) es)) \<and>
             pending m' = []))"
proof (intro conjI impI)
  assume h: "expressions s \<noteq> [] \<and> pending m = [] \<and> expressionCount m = 0 \<and> modelSetting m = Some s \<and>
    arrivals eng es (loadCubismExpression s m) \<and> list_all (\<lambda>e. resolved (snd e)) es \<and>
    length es = length (expressions s)"
  then have u: "expressionsUnderWay s (loadCubismExpression s m)"
    and l: "length (pending (loadCubismExpression s m)) = length (expressions s)"
    and c: "expressionCount (loadCubismExpression s m) = 0"
    using loadCubismExpression_underWay [of s m] by simp_all
  from h l have "length es = length (pending (loadCubismExpression s m))" by simp
  from expressions_fan_in [OF u _ _ this, of eng] h c
  show "\<forall>n < length es.
          state (deliverAll eng (take n es) (loadCubismExpression s m)) = WaitLoadExpression \<and>
          expressionCount (deliverAll eng (take n es) (loadCubismExpression s m)) = n"
    and "\<exists>m'. deliverAll eng es (loadCubismExpression s m)
               = loadCubismPhysics s (m'\<lparr>state := LoadPhysics\<rparr>) \<and>
             expressionCount m' = length (expressions s) \<and> pending m' = []"
    by simp_all
next
  assume h: "0 < sum_list (map (getMotionCount s) (map fst (motionGroups s))) \<and> pending m = [] \<and>
    modelSetting m = Some s \<and>
    arrivals eng es (loadCubismMotion s m) \<and> list_all (\<lambda>e. resolved (snd e)) es \<and>
    length es = sum_list (map (getMotionCount s) (map fst (motionGroups s)))"
  then have u: "motionsUnderWay s (loadCubismMotion s m)"
    and l: "length (pending (loadCubismMotion s m))
           = sum_list (map (getMotionCount s) (map fst (motionGroups s)))"
    and c: "motionCount (loadCubismMotion s m) = 0"
    and d: "allMotionCount (loadCubismMotion s m)
           = int (sum_list (map (getMotionCount s) (map fst (motionGroups s))))"
    using loadCubismMotion_underWay [of s m] by simp_all
  from h l have "length es = length (pending (loadCubismMotion s m))" by simp
  from motions_fan_in [OF u _ _ this, of eng] h c d
  show "\<forall>n < length es. state (deliverAll eng (take n es) (loadCubismMotion s m)) = WaitLoadMotion"
    and "\<exists>m'. deliverAll eng es (loadCubismMotion s m) = finishMotions s m' \<and>
             motionCount m' = int (length (filter (\<lambda>e. usable eng (snd e)) es)) \<and>
             allMotionCount m' = int (length es) - int (length (filter (\<lambda>e. \<not> usable eng (snd e)) es)) \<and>
             pending m' = []"
    by simp_all
qed


theorem fan_in_any_order_witness:
  "expressions fanOutSetting \<noteq> [] \<and> pending fanOutModel = [] \<and>
   expressionCount fanOutModel = 0 \<and> modelSetting fanOutModel = Some fanOutSetting \<and>
   arrivals sampleEngine [(1, Response True [1]), (0, Response False [])]
     (loadCubismExpression fanOutSetting fanOutModel) \<and>
   state (deliverAll sampleEngine [(1, Response True [1])]
            (loadCubismExpression fanOutSetting fanOutModel)) = WaitLoadExpression \<and>
   state (deliverAll sampleEngine [(1, Response True [1]), (0, Response False [])]
            (loadCubismExpression fanOutSetting fanOutModel)) = WaitLoadMotion \<and>
   expressionCount (deliverAll sampleEngine [(1, Response True [1]), (0, Response False [])]
            (loadCubismExpression fanOutSetting fanOutModel)) = 2 \<and>
   0 < sum_list (map (getMotionCount fanOutSetting) (map fst (motionGroups fanOutSetting))) \<and>
   arrivals sampleEngine [(1, Response False []), (0, Response True [1])]
     (loadCubismMotion fanOutSetting fanOutModel) \<and>
   state (deliverAll sampleEngine [(1, Response False [])]
            (loadCubismMotion fanOutSetting fanOutModel)) = WaitLoadMotion \<and>
   state (deliverAll sampleEngine [(1, Response False []), (0, Response True [1])]
            (loadCubismMotion fanOutSetting fanOutModel)) = WaitLoadTexture \<and>
   motionCount (deliverAll sampleEngine [(1, Response False []), (0, Response True [1])]
            (loadCubismMotion fanOutSetting fanOutModel)) = 1 \<and>
   allMotionCount (deliverAll sampleEngine [(1, Response False []), (0, Response True [1])]
            (loadCubismMotion fanOutSetting fanOutModel)) = 1"
  using fan_in_any_order [of fanOutSetting fanOutModel sampleEngine
          "[(1, Response True [1]), (0, Response False [])]"]
        fan_in_any_order [of fanOutSetting fanOutModel sampleEngine
          "[(1, Response False []), (0, Response True [1])]"]
  by (simp add: newLAppModel_def pipeline_defs Let_def)

text \<open>
  C3 as stated fails.  An expression fetch that is not ok is counted as
  completed.  A motion fetch that is rejected runs no handler: the total stays at 2
  and, with the other motion loaded and nothing under way, the stage waits for ever.
\<close>

theorem failed_sub_fetches:
  "expressionCount (deliver sampleEngine 0 (Response False [])
      (loadCubismExpression fanOutSetting fanOutModel)) = 1 \<and>
   state (deliverAll sampleEngine [(0, Rejected), (0, Response True [1])]
      (loadCubismMotion fanOutSetting fanOutModel)) = WaitLoadMotion \<and>
   pending (deliverAll sampleEngine [(0, Rejected), (0, Response True [1])]
      (loadCubismMotion fanOutSetting fanOutModel)) = [] \<and>
   motionCount (deliverAll sampleEngine [(0, Rejected), (0, Response True [1])]
      (loadCubismMotion fanOutSetting fanOutModel)) = 1 \<and>
   allMotionCount (deliverAll sampleEngine [(0, Rejected), (0, Response True [1])]
      (loadCubismMotion fanOutSetting fanOutModel)) = 2"
  by (simp add: newLAppModel_def pipeline_defs Let_def)

end
